theory Spec2Isabelle
  imports Complex_Main
begin

section \<open>WiPerf: the WebSocket throughput tester (server.ts, client.ts)\<close>

text \<open>
  A shallow embedding of the throughput-test protocol of \<^verbatim>\<open>wiperf-speedtest\<close>: the
  server's per-connection state machine and download flood (\<^verbatim>\<open>server.ts\<close>) and the
  client's state machine, payload handler and upload flood (\<^verbatim>\<open>client.ts\<close>).

  Conventions of the model.
  \<^item> Every handler is a function from the state it reads to the state it leaves, paired
    with the list of effects it performs, in program order (frames sent, timers set or
    cleared, calls of \<^verbatim>\<open>updateSpeedDisplay\<close>). Console output is not an effect.
  \<^item> What a handler reads from its surroundings (\<^verbatim>\<open>performance.now()\<close>,
    \<^verbatim>\<open>socket.bufferedAmount\<close>, the identifier \<^verbatim>\<open>setTimeout\<close> returns) is an argument.
  \<^item> A JavaScript number is a real number or one of the three non-finite values; rounding
    to 64-bit floating point and the sign of zero are not modelled. Clock readings are
    finite (\<open>real\<close>), byte counts are integers (\<open>int\<close>, since \<open>-1\<close> is a sentinel).
\<close>

subsection \<open>JavaScript numbers\<close>

datatype number = Fin real | PosInf | NegInf | NaN

fun num_sign :: "number \<Rightarrow> real" where
  "num_sign (Fin a) = sgn a"
| "num_sign PosInf = 1"
| "num_sign NegInf = -1"
| "num_sign NaN = 0"

text \<open>\<^verbatim>\<open>x + y\<close>\<close>

fun num_add :: "number \<Rightarrow> number \<Rightarrow> number" where
  "num_add (Fin a) (Fin b) = Fin (a + b)"
| "num_add NaN y = NaN"
| "num_add x NaN = NaN"
| "num_add PosInf NegInf = NaN"
| "num_add NegInf PosInf = NaN"
| "num_add PosInf y = PosInf"
| "num_add NegInf y = NegInf"
| "num_add (Fin a) y = y"

text \<open>\<^verbatim>\<open>x * y\<close>\<close>

fun num_mul :: "number \<Rightarrow> number \<Rightarrow> number" where
  "num_mul (Fin a) (Fin b) = Fin (a * b)"
| "num_mul NaN y = NaN"
| "num_mul x NaN = NaN"
| "num_mul x y =
     (if num_sign x * num_sign y = 0 then NaN
      else if num_sign x * num_sign y > 0 then PosInf else NegInf)"

text \<open>\<^verbatim>\<open>x / y\<close>; a zero divisor is taken as \<open>+0\<close>.\<close>

fun num_div :: "number \<Rightarrow> number \<Rightarrow> number" where
  "num_div (Fin a) (Fin b) =
     (if b \<noteq> 0 then Fin (a / b)
      else if a = 0 then NaN else if a > 0 then PosInf else NegInf)"
| "num_div NaN y = NaN"
| "num_div x NaN = NaN"
| "num_div (Fin a) y = Fin 0"
| "num_div x (Fin b) =
     (if (num_sign x > 0) = (b \<ge> 0) then PosInf else NegInf)"
| "num_div x y = NaN"

text \<open>\<^verbatim>\<open>x >= y\<close> and \<^verbatim>\<open>x <= y\<close>: false whenever an operand is NaN.\<close>

fun num_ge :: "number \<Rightarrow> number \<Rightarrow> bool" where
  "num_ge (Fin a) (Fin b) = (a \<ge> b)"
| "num_ge NaN y = False"
| "num_ge x NaN = False"
| "num_ge PosInf y = True"
| "num_ge x NegInf = True"
| "num_ge x y = False"

definition num_le :: "number \<Rightarrow> number \<Rightarrow> bool" where
  "num_le x y = num_ge y x"

text \<open>\<^verbatim>\<open>Math.min(x, y)\<close>\<close>

fun num_min :: "number \<Rightarrow> number \<Rightarrow> number" where
  "num_min NaN y = NaN"
| "num_min x NaN = NaN"
| "num_min x y = (if num_le x y then x else y)"

text \<open>\<^verbatim>\<open>Math.floor(x)\<close>\<close>

fun num_floor :: "number \<Rightarrow> number" where
  "num_floor (Fin a) = Fin (of_int \<lfloor>a\<rfloor>)"
| "num_floor x = x"

subsection \<open>Wire protocol\<close>

text \<open>
  \<^verbatim>\<open>type Action\<close> and \<^verbatim>\<open>type ServerMessage\<close>, declared alike in both files. The
  \<^verbatim>\<open>data\<close> of \<^verbatim>\<open>uploadData\<close> is an ArrayBuffer of which only \<^verbatim>\<open>byteLength\<close> is read.
  \<open>UnknownMessage\<close> stands for a parsed value whose \<^verbatim>\<open>type\<close> is none of the three:
  the client's \<^verbatim>\<open>switch\<close> has a \<^verbatim>\<open>default\<close> branch for it.
\<close>

datatype Action =
    StartUpload number
  | StartDownload number number
  | StopUpload
  | StopDownload
  | UploadData nat

datatype ServerMessage =
    UploadProgress real int number
  | UploadResult real int
  | DownloadComplete
  | UnknownMessage

text \<open>The values \<^verbatim>\<open>JSON.parse\<close> returns.\<close>

datatype json =
    JNull
  | JBool bool
  | JNumber number
  | JString string
  | JArray "json list"
  | JObject "(string \<times> json) list"

text \<open>
  \<^verbatim>\<open>event.data\<close> of a MessageEvent: a string, given by what \<^verbatim>\<open>JSON.parse\<close> makes of
  it (\<open>None\<close> when it throws a SyntaxError), or an ArrayBuffer, given by its length.
\<close>

datatype MessageEvent = StringData "json option" | BinaryData nat

text \<open>
  \<^verbatim>\<open>v.name\<close> for a value other than \<^verbatim>\<open>null\<close>; \<open>None\<close> is \<^verbatim>\<open>undefined\<close>. Booleans,
  numbers, strings and arrays have none of the properties the parser reads.
\<close>

fun get_prop :: "json \<Rightarrow> string \<Rightarrow> json option" where
  "get_prop (JObject fields) name = map_of fields name"
| "get_prop v name = None"

subsection \<open>server.ts: states, effects, constants\<close>

definition DOWNLOAD_DURATION_BUFFER_MS :: real where
  "DOWNLOAD_DURATION_BUFFER_MS = 500"

definition FLOOD_ACTIVE_NOT_YET_SCHEDULED :: int where
  "FLOOD_ACTIVE_NOT_YET_SCHEDULED = -1"

definition FLOOD_CANCELLED :: int where
  "FLOOD_CANCELLED = -2"

record UploadState =
  startTimeOnServerMs :: real
  requestedDurationMs :: number
  bytesReceived :: int

record DownloadState =
  dl_startTimeOnServerMs :: real
  dl_requestedDurationMs :: number
  downloadFloodTimer :: int

datatype ClientState = Idle | Upload UploadState | Download DownloadState

fun status :: "ClientState \<Rightarrow> string" where
  "status Idle = ''idle''"
| "status (Upload u) = ''upload''"
| "status (Download d) = ''download''"

fun action_type :: "Action \<Rightarrow> string" where
  "action_type (StartUpload durationMs) = ''startUpload''"
| "action_type (StartDownload durationMs payloadSizeBytes) = ''startDownload''"
| "action_type StopUpload = ''stopUpload''"
| "action_type StopDownload = ''stopDownload''"
| "action_type (UploadData n) = ''uploadData''"

text \<open>
  What the server does to the outside: \<^verbatim>\<open>socket.send\<close> of a JSON text or of the payload
  buffer (given by its length), \<^verbatim>\<open>setTimeout(sendDownloadChunk, delay)\<close> and
  \<^verbatim>\<open>clearTimeout(id)\<close>.
\<close>

datatype effect =
    SendText ServerMessage
  | SendBinary nat
  | SetTimeout nat
  | ClearTimeout int

text \<open>
  What a handler reads: the clock (read once by each message handler, once by
  \<^verbatim>\<open>initiateDownloadFlooding\<close> and once by \<^verbatim>\<open>sendDownloadChunk\<close> after its send),
  the socket's outbound buffer, the identifier the next \<^verbatim>\<open>setTimeout\<close> returns, and
  the length of the largest ArrayBuffer the engine can allocate at that moment.
\<close>

record env =
  now :: real
  floodNow :: real
  tickNow :: real
  bufferedAmount :: nat
  timerId :: int
  allocatable :: nat

datatype error = RangeError | HandlerTypeMismatch

type_synonym result = "error + ClientState \<times> effect list"

subsection \<open>server.ts: parseEventToAction\<close>

text \<open>\<^verbatim>\<open>typeof v !== "number" || v <= 0\<close> for a property that may be undefined.\<close>

fun not_positive_number :: "json option \<Rightarrow> bool" where
  "not_positive_number (Some (JNumber x)) = num_le x (Fin 0)"
| "not_positive_number v = True"

fun the_number :: "json option \<Rightarrow> number" where
  "the_number (Some (JNumber x)) = x"
| "the_number v = NaN"

text \<open>
  The \<^verbatim>\<open>try\<close> block: \<^verbatim>\<open>JSON.parse\<close> throws on a malformed text, and reading
  \<^verbatim>\<open>action.type\<close> throws a TypeError when the text was \<^verbatim>\<open>null\<close>; both are caught
  and give \<^verbatim>\<open>null\<close>, here \<open>None\<close>.
\<close>

definition parseEventToAction :: "MessageEvent \<Rightarrow> Action option" where
  "parseEventToAction event =
     (case event of
        StringData None \<Rightarrow> None
      | StringData (Some JNull) \<Rightarrow> None
      | StringData (Some action) \<Rightarrow>
          (let ty = get_prop action ''type'' in
           if ty = Some (JString ''startUpload'') \<or> ty = Some (JString ''startDownload'') then
             (if not_positive_number (get_prop action ''durationMs'') then None
              else if ty = Some (JString ''startDownload'') \<and>
                      not_positive_number (get_prop action ''payloadSizeBytes'') then None
              else if ty = Some (JString ''startUpload'')
                then Some (StartUpload (the_number (get_prop action ''durationMs'')))
                else Some (StartDownload (the_number (get_prop action ''durationMs''))
                                         (the_number (get_prop action ''payloadSizeBytes''))))
           else if ty = Some (JString ''stopUpload'') then Some StopUpload
           else if ty = Some (JString ''stopDownload'') then Some StopDownload
           else None)
      | BinaryData n \<Rightarrow> Some (UploadData n))"

subsection \<open>server.ts: the download flood\<close>

text \<open>
  \<^verbatim>\<open>new ArrayBuffer(n)\<close>: the length is \<^verbatim>\<open>ToIndex(n)\<close>, which truncates towards zero
  and throws a RangeError outside \<open>0 .. 2^53 - 1\<close>; the allocation then throws a
  RangeError too when the length is more than the engine can allocate (\<open>limit\<close>).
  \<open>None\<close> is the throw.
\<close>

fun new_ArrayBuffer :: "nat \<Rightarrow> number \<Rightarrow> nat option" where
  "new_ArrayBuffer limit (Fin p) =
     (let i = (if p \<ge> 0 then \<lfloor>p\<rfloor> else \<lceil>p\<rceil>)
      in if i < 0 \<or> i > 2 ^ 53 - 1 then None
         else if nat i > limit then None
         else Some (nat i))"
| "new_ArrayBuffer limit NaN = Some 0"
| "new_ArrayBuffer limit x = None"

text \<open>The constants \<^verbatim>\<open>sendDownloadChunk\<close> closes over.\<close>

record flood =
  floodStartTimeMs :: real
  fl_requestedDurationMs :: number
  backpressureThresholdBytes :: number
  fl_payload :: nat

text \<open>
  One run of \<^verbatim>\<open>sendDownloadChunk\<close> on the DownloadState object the closure holds.
\<close>

definition sendDownloadChunk :: "flood \<Rightarrow> env \<Rightarrow> DownloadState \<Rightarrow> DownloadState \<times> effect list" where
  "sendDownloadChunk fl e clientState =
     (if downloadFloodTimer clientState = FLOOD_CANCELLED then (clientState, [])
      else if num_ge (Fin (real (bufferedAmount e))) (backpressureThresholdBytes fl)
        then (clientState\<lparr>downloadFloodTimer := timerId e\<rparr>, [SetTimeout 1])
      else
        (let elapsedMs = tickNow e - floodStartTimeMs fl in
         if num_ge (Fin elapsedMs)
              (num_add (fl_requestedDurationMs fl) (Fin DOWNLOAD_DURATION_BUFFER_MS))
         then (clientState\<lparr>downloadFloodTimer := FLOOD_CANCELLED\<rparr>, [SendBinary (fl_payload fl)])
         else (clientState\<lparr>downloadFloodTimer := timerId e\<rparr>,
               [SendBinary (fl_payload fl), SetTimeout 0])))"

text \<open>
  \<^verbatim>\<open>initiateDownloadFlooding\<close>: builds the closure and runs the first tick at once.
  It returns the closure too, for the ticks the timers run later.
\<close>

definition initiateDownloadFlooding ::
  "env \<Rightarrow> DownloadState \<Rightarrow> number \<Rightarrow> number \<Rightarrow> error + (flood \<times> DownloadState \<times> effect list)" where
  "initiateDownloadFlooding e clientState durationMs payloadSizeBytes =
     (case new_ArrayBuffer (allocatable e) payloadSizeBytes of
        None \<Rightarrow> Inl RangeError
      | Some len \<Rightarrow>
          (let fl = \<lparr>floodStartTimeMs = floodNow e,
                     fl_requestedDurationMs = durationMs,
                     backpressureThresholdBytes = num_mul (Fin 2) payloadSizeBytes,
                     fl_payload = len\<rparr>;
               r = sendDownloadChunk fl e clientState
           in Inr (fl, fst r, snd r)))"

subsection \<open>server.ts: the five handlers\<close>

definition startUpload :: "env \<Rightarrow> number \<Rightarrow> UploadState" where
  "startUpload e durationMs =
     \<lparr>startTimeOnServerMs = now e, requestedDurationMs = durationMs, bytesReceived = -1\<rparr>"

definition startDownload :: "env \<Rightarrow> number \<Rightarrow> number \<Rightarrow> error + (DownloadState \<times> effect list)" where
  "startDownload e durationMs payloadSizeBytes =
     (let newState = \<lparr>dl_startTimeOnServerMs = now e,
                      dl_requestedDurationMs = durationMs,
                      downloadFloodTimer = FLOOD_ACTIVE_NOT_YET_SCHEDULED\<rparr>
      in case initiateDownloadFlooding e newState durationMs payloadSizeBytes of
           Inl err \<Rightarrow> Inl err
         | Inr (fl, st, effs) \<Rightarrow> Inr (st, effs))"

definition stopUpload :: "env \<Rightarrow> UploadState \<Rightarrow> ClientState \<times> effect list" where
  "stopUpload e state =
     (let elapsedMs = now e - startTimeOnServerMs state
      in (Idle, [SendText (UploadResult elapsedMs (bytesReceived state))]))"

definition stopDownload :: "DownloadState \<Rightarrow> ClientState \<times> effect list" where
  "stopDownload state =
     (Idle, (if downloadFloodTimer state > 0 then [ClearTimeout (downloadFloodTimer state)] else [])
            @ [SendText DownloadComplete])"

definition uploadData :: "env \<Rightarrow> UploadState \<Rightarrow> nat \<Rightarrow> ClientState \<times> effect list" where
  "uploadData e state byteLength =
     (if bytesReceived state = -1
      then (Upload (state\<lparr>startTimeOnServerMs := now e, bytesReceived := 0\<rparr>), [])
      else
        (let newBytesReceived = bytesReceived state + int byteLength;
             elapsedMs = now e - startTimeOnServerMs state
         in if num_ge (Fin elapsedMs) (requestedDurationMs state)
            then (Idle, [SendText (UploadResult elapsedMs newBytesReceived)])
            else
              (let progressPercent =
                     num_min (num_mul (num_div (Fin elapsedMs) (requestedDurationMs state)) (Fin 100))
                             (Fin 100)
               in (Upload (state\<lparr>bytesReceived := newBytesReceived\<rparr>),
                   [SendText (UploadProgress elapsedMs newBytesReceived progressPercent)]))))"

subsection \<open>server.ts: processMessage\<close>

text \<open>
  The registry is a table of functions keyed by the status and then by the action's type.
  A handler is stored under the key of the state and action it is declared for; the
  table entry narrows the two arguments to that declaration (the types are erased at run
  time), and \<open>HandlerTypeMismatch\<close> marks the combinations the keys exclude.
\<close>

type_synonym handler = "env \<Rightarrow> ClientState \<Rightarrow> Action \<Rightarrow> result"

fun h_startUpload :: handler where
  "h_startUpload e Idle (StartUpload durationMs) = Inr (Upload (startUpload e durationMs), [])"
| "h_startUpload e s a = Inl HandlerTypeMismatch"

fun h_startDownload :: handler where
  "h_startDownload e Idle (StartDownload durationMs payloadSizeBytes) =
     (case startDownload e durationMs payloadSizeBytes of
        Inl err \<Rightarrow> Inl err
      | Inr (st, effs) \<Rightarrow> Inr (Download st, effs))"
| "h_startDownload e s a = Inl HandlerTypeMismatch"

fun h_stopUpload :: handler where
  "h_stopUpload e (Upload state) StopUpload = Inr (stopUpload e state)"
| "h_stopUpload e s a = Inl HandlerTypeMismatch"

fun h_uploadData :: handler where
  "h_uploadData e (Upload state) (UploadData n) = Inr (uploadData e state n)"
| "h_uploadData e s a = Inl HandlerTypeMismatch"

fun h_stopDownload :: handler where
  "h_stopDownload e (Download state) StopDownload = Inr (stopDownload state)"
| "h_stopDownload e s a = Inl HandlerTypeMismatch"

definition STATE_HANDLERS :: "(string \<times> (string \<times> handler) list) list" where
  "STATE_HANDLERS =
     [(''idle'', [(''startUpload'', h_startUpload), (''startDownload'', h_startDownload)]),
      (''upload'', [(''stopUpload'', h_stopUpload), (''uploadData'', h_uploadData)]),
      (''download'', [(''stopDownload'', h_stopDownload)])]"

definition processMessage :: "env \<Rightarrow> ClientState \<Rightarrow> MessageEvent \<Rightarrow> result" where
  "processMessage e clientState event =
     (case parseEventToAction event of
        None \<Rightarrow> Inr (clientState, [])
      | Some action \<Rightarrow>
          (case map_of STATE_HANDLERS (status clientState) of
             None \<Rightarrow> Inr (clientState, [])
           | Some stateHandlers \<Rightarrow>
               (case map_of stateHandlers (action_type action) of
                  None \<Rightarrow> Inr (clientState, [])
                | Some handler \<Rightarrow> handler e clientState action)))"

text \<open>
  \<^verbatim>\<open>cleanupForDownloadFlood\<close>, run by \<^verbatim>\<open>socket.onclose\<close> and \<^verbatim>\<open>socket.onerror\<close>
  on \<^verbatim>\<open>clients.get(socket)\<close>, which may be undefined (\<open>None\<close>).
\<close>

definition cleanupForDownloadFlood :: "ClientState option \<Rightarrow> ClientState option \<times> effect list" where
  "cleanupForDownloadFlood clientState =
     (case clientState of
        Some (Download d) \<Rightarrow>
          (if downloadFloodTimer d > 0
           then (Some (Download (d\<lparr>downloadFloodTimer := FLOOD_CANCELLED\<rparr>)),
                 [ClearTimeout (downloadFloodTimer d)])
           else (clientState, []))
      | _ \<Rightarrow> (clientState, []))"

subsection \<open>client.ts: states, effects, configuration\<close>

definition MiB :: nat where
  "MiB = 1024 * 1024"

definition BACKPRESSURE_THRESHOLD_BYTES :: nat where
  "BACKPRESSURE_THRESHOLD_BYTES = 16 * MiB"

text \<open>
  \<^verbatim>\<open>controlConfigValues\<close>. The duration and the payload size are set from the page's
  radio buttons only, as \<^verbatim>\<open>parseInt(value) * 1000\<close> and \<^verbatim>\<open>parseInt(value) * MiB\<close>.
\<close>

record controlConfigValues =
  direction :: string
  durationMs :: real
  payloadSizeBytes :: nat

record c_UploadState =
  uploadInterval :: int
  uploadPayload :: nat

record c_DownloadState =
  downloadBytesReceived :: int
  downloadStartTimeClient :: real
  downloadLastReceivedTimeClient :: real
  downloadCompleted :: bool

datatype c_status =
    DisconnectedState
  | ReadyState
  | UploadingState c_UploadState
  | DownloadingState c_DownloadState
  | CompletedState
  | ErrorState

text \<open>
  The global \<^verbatim>\<open>clientState\<close>: the variant, and whether its \<^verbatim>\<open>ws\<close> field holds the
  socket (\<open>True\<close>) or \<^verbatim>\<open>null\<close>.
\<close>

record c_ClientState =
  c_status :: c_status
  ws :: bool

fun is_upload :: "c_status \<Rightarrow> bool" where
  "is_upload (UploadingState u) = True"
| "is_upload s = False"

fun is_download :: "c_status \<Rightarrow> bool" where
  "is_download (DownloadingState d) = True"
| "is_download s = False"

text \<open>The third argument of \<^verbatim>\<open>updateSpeedDisplay\<close>, a count of KiB and a word.\<close>

datatype progress_text =
    NoText
  | KiB_transferred number
  | KiB_total number
  | KiB_received number

text \<open>
  What the client does to the outside: \<^verbatim>\<open>ws.send\<close> of a control message or of the
  payload buffer, \<^verbatim>\<open>updateSpeedDisplay\<close>, the text of the start button,
  \<^verbatim>\<open>setTimeout(sendUploadChunk, delay)\<close>, \<^verbatim>\<open>clearTimeout(id)\<close>, and the timer that
  resets the display two seconds after a result.
\<close>

datatype c_effect =
    Send Action
  | SendPayload nat
  | UpdateSpeedDisplay number string progress_text number
  | ButtonText string
  | SetTimeoutUpload nat
  | ClearTimeoutUpload int
  | SetTimeoutDisplayReset

text \<open>
  What the client reads: the clock (\<open>c_now2\<close> is the second reading within
  \<^verbatim>\<open>handlePayloadMessage\<close>), whether \<^verbatim>\<open>ws.readyState\<close> is OPEN, the socket's outbound
  buffer, the identifier the next \<^verbatim>\<open>setTimeout\<close> returns, and whether
  \<^verbatim>\<open>ws.send(payload)\<close> throws.
\<close>

record c_env =
  c_now :: real
  c_now2 :: real
  wsOpen :: bool
  c_bufferedAmount :: nat
  c_timerId :: int
  sendThrows :: bool

text \<open>
  \<^verbatim>\<open>event.data\<close> on the client: a string, given by the message it parses to (\<open>None\<close>
  when the \<^verbatim>\<open>try\<close> block throws: \<^verbatim>\<open>JSON.parse\<close> on a malformed text, or reading
  \<^verbatim>\<open>message.type\<close> of \<^verbatim>\<open>null\<close>), or an ArrayBuffer, given by its length.
\<close>

datatype c_MessageEvent = C_StringData "ServerMessage option" | C_BinaryData nat

subsection \<open>client.ts: the functions\<close>

definition sendControlMessage :: "c_env \<Rightarrow> c_ClientState \<Rightarrow> Action \<Rightarrow> c_effect list" where
  "sendControlMessage e clientState message =
     (if ws clientState \<and> wsOpen e then [Send message] else [])"

definition stopUploadTest :: "c_ClientState \<Rightarrow> c_ClientState \<times> c_effect list" where
  "stopUploadTest clientState =
     (case c_status clientState of
        UploadingState uploadState \<Rightarrow>
          (if uploadInterval uploadState \<noteq> 0
           then (clientState\<lparr>c_status := UploadingState (uploadState\<lparr>uploadInterval := 0\<rparr>)\<rparr>,
                 [ClearTimeoutUpload (uploadInterval uploadState)])
           else (clientState, []))
      | _ \<Rightarrow> (clientState, []))"

definition resetToIdle :: "c_env \<Rightarrow> c_ClientState \<Rightarrow> c_ClientState \<times> c_effect list" where
  "resetToIdle e clientState =
     (let r = stopUploadTest clientState;
          effs = snd r @ [UpdateSpeedDisplay (Fin 0) ''Ready'' NoText (Fin 0),
                          ButtonText ''Start Test'']
      in if ws (fst r) \<and> wsOpen e
         then (\<lparr>c_status = ReadyState, ws = True\<rparr>, effs)
         else (\<lparr>c_status = DisconnectedState, ws = False\<rparr>, effs))"

text \<open>
  One run of \<^verbatim>\<open>sendUploadChunk\<close>; \<open>payload\<close> is the buffer \<^verbatim>\<open>startUploadTest\<close>
  captured.
\<close>

definition sendUploadChunk :: "nat \<Rightarrow> c_env \<Rightarrow> c_ClientState \<Rightarrow> c_ClientState \<times> c_effect list" where
  "sendUploadChunk payload e clientState =
     (case c_status clientState of
        UploadingState uploadState \<Rightarrow>
          (if \<not> ws clientState then stopUploadTest clientState
           else if \<not> wsOpen e then stopUploadTest clientState
           else if c_bufferedAmount e \<ge> BACKPRESSURE_THRESHOLD_BYTES
             then (clientState\<lparr>c_status := UploadingState (uploadState\<lparr>uploadInterval := c_timerId e\<rparr>)\<rparr>,
                   [SetTimeoutUpload 1])
           else if sendThrows e
             then resetToIdle e \<lparr>c_status = ErrorState, ws = ws clientState\<rparr>
           else (clientState\<lparr>c_status := UploadingState (uploadState\<lparr>uploadInterval := c_timerId e\<rparr>)\<rparr>,
                 [SendPayload payload, SetTimeoutUpload 0]))
      | _ \<Rightarrow> stopUploadTest clientState)"

definition startUploadTest :: "c_env \<Rightarrow> c_ClientState \<Rightarrow> c_ClientState \<times> c_effect list" where
  "startUploadTest e clientState =
     (case c_status clientState of
        UploadingState uploadState \<Rightarrow>
          (if uploadInterval uploadState \<noteq> 0 then (clientState, [])
           else sendUploadChunk (uploadPayload uploadState) e clientState)
      | _ \<Rightarrow> (clientState, []))"

text \<open>
  \<^verbatim>\<open>bytes * 8 * 1000 / elapsedMs / (1024 * 1024)\<close>, the speed the result and progress
  handlers pass to the display.
\<close>

definition speedMbps_of :: "number \<Rightarrow> number \<Rightarrow> number" where
  "speedMbps_of bytes elapsedMs =
     num_div (num_div (num_mul (num_mul bytes (Fin 8)) (Fin 1000)) elapsedMs) (Fin (1024 * 1024))"

text \<open>\<^verbatim>\<open>Math.floor(bytes / 1024)\<close>\<close>

definition bytesKiB_of :: "number \<Rightarrow> number" where
  "bytesKiB_of bytes = num_floor (num_div bytes (Fin 1024))"

text \<open>
  The download figures the \<^verbatim>\<open>uploadResult\<close> and \<^verbatim>\<open>downloadComplete\<close> branches display.
  The \<^verbatim>\<open>downloadComplete\<close> branch casts \<^verbatim>\<open>clientState\<close> to DownloadState whatever it
  is; in another state the three fields are \<^verbatim>\<open>undefined\<close> and the arithmetic gives NaN.
\<close>

definition download_display :: "c_env \<Rightarrow> c_status \<Rightarrow> c_effect" where
  "download_display e s =
     (case s of
        DownloadingState downloadState \<Rightarrow>
          (let elapsedMs =
                 (if downloadLastReceivedTimeClient downloadState > 0
                  then downloadLastReceivedTimeClient downloadState
                         - downloadStartTimeClient downloadState
                  else c_now e - downloadStartTimeClient downloadState);
               bytes = Fin (of_int (downloadBytesReceived downloadState))
           in UpdateSpeedDisplay (speedMbps_of bytes (Fin elapsedMs)) ''Complete''
                (KiB_total (bytesKiB_of bytes)) (Fin 100))
      | _ \<Rightarrow> UpdateSpeedDisplay NaN ''Complete'' (KiB_total NaN) (Fin 100))"

definition handleServerMessage ::
  "c_env \<Rightarrow> c_ClientState \<Rightarrow> ServerMessage \<Rightarrow> c_ClientState \<times> c_effect list" where
  "handleServerMessage e clientState message =
     (case message of
        UploadProgress elapsedMs receivedBytes progressPercent \<Rightarrow>
          (if is_upload (c_status clientState)
           then (clientState,
                 [UpdateSpeedDisplay (speedMbps_of (Fin (of_int receivedBytes)) (Fin elapsedMs))
                    ''Testing... upload''
                    (KiB_transferred (bytesKiB_of (Fin (of_int receivedBytes))))
                    progressPercent])
           else (clientState, []))
      | UploadResult elapsedMs receivedBytes \<Rightarrow>
          (let r = (if is_upload (c_status clientState)
                    then (let r' = stopUploadTest clientState
                          in (fst r',
                              UpdateSpeedDisplay
                                (speedMbps_of (Fin (of_int receivedBytes)) (Fin elapsedMs))
                                ''Complete''
                                (KiB_total (bytesKiB_of (Fin (of_int receivedBytes))))
                                (Fin 100) # snd r'))
                    else if is_download (c_status clientState)
                    then (clientState, [download_display e (c_status clientState)])
                    else (clientState, []))
           in (\<lparr>c_status = ReadyState, ws = ws (fst r)\<rparr>,
               snd r @ [ButtonText ''Start Test'', SetTimeoutDisplayReset]))
      | DownloadComplete \<Rightarrow>
          (\<lparr>c_status = ReadyState, ws = ws clientState\<rparr>,
           [download_display e (c_status clientState),
            ButtonText ''Start Test'', SetTimeoutDisplayReset])
      | UnknownMessage \<Rightarrow> (clientState, []))"

definition handlePayloadMessage ::
  "controlConfigValues \<Rightarrow> c_env \<Rightarrow> c_ClientState \<Rightarrow> nat \<Rightarrow> c_ClientState \<times> c_effect list" where
  "handlePayloadMessage cfg e clientState byteLength =
     (case c_status clientState of
        DownloadingState downloadState \<Rightarrow>
          (if downloadCompleted downloadState then (clientState, [])
           else if downloadBytesReceived downloadState = -1
           then (clientState\<lparr>c_status := DownloadingState
                   (downloadState\<lparr>downloadStartTimeClient := c_now e,
                                  downloadBytesReceived := 0,
                                  downloadLastReceivedTimeClient := c_now e,
                                  downloadCompleted := False\<rparr>)\<rparr>, [])
           else
             (let newBytesReceived = downloadBytesReceived downloadState + int byteLength;
                  newState = downloadState\<lparr>downloadBytesReceived := newBytesReceived,
                                           downloadLastReceivedTimeClient := c_now e\<rparr>;
                  elapsedSoFar = c_now2 e - downloadStartTimeClient newState;
                  speedBitsPerSec =
                    (if elapsedSoFar > 0
                     then of_int \<lfloor>of_int (newBytesReceived * 8 * 1000) / elapsedSoFar\<rfloor>
                     else 0);
                  speedMbps = Fin (speedBitsPerSec / (1024 * 1024));
                  bytesKiB = bytesKiB_of (Fin (of_int newBytesReceived));
                  progressPercent =
                    num_min (num_mul (num_div (Fin elapsedSoFar) (Fin (durationMs cfg))) (Fin 100))
                            (Fin 100)
              in if elapsedSoFar \<ge> durationMs cfg
                 then
                   (let done = clientState\<lparr>c_status :=
                                 DownloadingState (newState\<lparr>downloadCompleted := True\<rparr>)\<rparr>
                    in (done,
                        UpdateSpeedDisplay speedMbps ''Complete'' (KiB_total bytesKiB) (Fin 100)
                          # sendControlMessage e done StopDownload))
                 else
                   (clientState\<lparr>c_status := DownloadingState newState\<rparr>,
                    [UpdateSpeedDisplay speedMbps ''Testing... download''
                       (KiB_received bytesKiB) progressPercent])))
      | _ \<Rightarrow> (clientState, []))"

definition startRealTest ::
  "controlConfigValues \<Rightarrow> c_env \<Rightarrow> c_ClientState \<Rightarrow> c_ClientState \<times> c_effect list" where
  "startRealTest cfg e clientState =
     (if c_status clientState \<noteq> ReadyState then (clientState, [])
      else if direction cfg = ''upload'' \<or> direction cfg = ''bidirectional'' then
        (let sent = sendControlMessage e clientState (StartUpload (Fin (durationMs cfg)));
             r = startUploadTest e
                   \<lparr>c_status = UploadingState
                      \<lparr>uploadInterval = 0, uploadPayload = payloadSizeBytes cfg\<rparr>,
                    ws = ws clientState\<rparr>
         in (fst r, sent @ snd r @
               [UpdateSpeedDisplay (Fin 0) ''Starting...'' NoText (Fin 0), ButtonText ''Stop Test'']))
      else if direction cfg = ''download'' then
        (let sent = sendControlMessage e clientState
                      (StartDownload (Fin (durationMs cfg)) (Fin (real (payloadSizeBytes cfg))))
         in (\<lparr>c_status = DownloadingState
                \<lparr>downloadBytesReceived = -1,
                 downloadStartTimeClient = c_now e,
                 downloadLastReceivedTimeClient = 0,
                 downloadCompleted = False\<rparr>,
              ws = ws clientState\<rparr>,
             sent @ [UpdateSpeedDisplay (Fin 0) ''Starting...'' NoText (Fin 0),
                     ButtonText ''Stop Test'']))
      else (clientState, []))"

definition stopRealTest :: "c_env \<Rightarrow> c_ClientState \<Rightarrow> c_ClientState \<times> c_effect list" where
  "stopRealTest e clientState =
     (if is_upload (c_status clientState) \<or> is_download (c_status clientState)
      then
        (let r = stopUploadTest clientState;
             sent = sendControlMessage e (fst r)
                      (if is_upload (c_status (fst r)) then StopUpload else StopDownload)
         in (\<lparr>c_status = ReadyState, ws = ws (fst r)\<rparr>,
             snd r @ sent @ [ButtonText ''Start Test'']))
      else (clientState, []))"

text \<open>\<^verbatim>\<open>ws.onmessage\<close>\<close>

definition ws_onmessage ::
  "controlConfigValues \<Rightarrow> c_env \<Rightarrow> c_ClientState \<Rightarrow> c_MessageEvent \<Rightarrow> c_ClientState \<times> c_effect list" where
  "ws_onmessage cfg e clientState event =
     (case event of
        C_StringData None \<Rightarrow> resetToIdle e \<lparr>c_status = ErrorState, ws = ws clientState\<rparr>
      | C_StringData (Some message) \<Rightarrow> handleServerMessage e clientState message
      | C_BinaryData n \<Rightarrow> handlePayloadMessage cfg e clientState n)"

subsection \<open>server.ts: message after message\<close>

text \<open>
  \<^verbatim>\<open>socket.onmessage\<close> stores what \<^verbatim>\<open>processMessage\<close> returns as the state of the
  connection, and the messages of a connection are handled in the order they arrive.
  Each message comes with what its handler reads from the surroundings. An exception
  ends the run.
\<close>

fun processMessages :: "ClientState \<Rightarrow> (env \<times> MessageEvent) list \<Rightarrow> result" where
  "processMessages s [] = Inr (s, [])"
| "processMessages s ((e, event) # rest) =
     (case processMessage e s event of
        Inl err \<Rightarrow> Inl err
      | Inr (s', effs) \<Rightarrow>
          (case processMessages s' rest of
             Inl err \<Rightarrow> Inl err
           | Inr (s'', effs') \<Rightarrow> Inr (s'', effs @ effs')))"

text \<open>A list of binary frames, each given by the surroundings at its arrival and its length.\<close>

definition binary_frames :: "(env \<times> nat) list \<Rightarrow> (env \<times> MessageEvent) list" where
  "binary_frames chunks = map (\<lambda>(e, n). (e, BinaryData n)) chunks"

fun is_progress :: "effect \<Rightarrow> bool" where
  "is_progress (SendText (UploadProgress elapsedMs receivedBytes progressPercent)) = True"
| "is_progress x = False"

section \<open>Properties\<close>

subsection \<open>The dispatcher is well typed\<close>

lemma startDownload_no_mismatch: "startDownload e d p \<noteq> Inl HandlerTypeMismatch"
  by (auto simp: startDownload_def initiateDownloadFlooding_def Let_def
           split: option.splits sum.splits prod.splits)

text \<open>No handler is ever called on a state or action it is not declared for.\<close>

lemma processMessage_no_mismatch: "processMessage e s ev \<noteq> Inl HandlerTypeMismatch"
proof (cases "parseEventToAction ev")
  case None
  then show ?thesis by (simp add: processMessage_def)
next
  case (Some a)
  then show ?thesis
    by (cases s; cases a)
       (auto simp: processMessage_def STATE_HANDLERS_def startDownload_no_mismatch
             split: sum.splits prod.splits)
qed

lemma parseEventToAction_binary: "parseEventToAction (BinaryData n) = Some (UploadData n)"
  by (simp add: parseEventToAction_def)

text \<open>
  The one exception \<^verbatim>\<open>processMessage\<close> can raise: a \<^verbatim>\<open>startDownload\<close> whose payload
  buffer cannot be made, here one of \<open>10^15\<close> bytes on an engine that can allocate 4 GiB.
\<close>

lemma startDownload_allocation_fails:
  "processMessage
     \<lparr>now = 0, floodNow = 0, tickNow = 0, bufferedAmount = 0, timerId = 1,
      allocatable = 4294967296\<rparr>
     Idle
     (StringData (Some (JObject
        [(''type'', JString ''startDownload''), (''durationMs'', JNumber (Fin 3000)),
         (''payloadSizeBytes'', JNumber (Fin 1000000000000000))])))
   = Inl RangeError"
  by (simp add: processMessage_def parseEventToAction_def num_le_def STATE_HANDLERS_def
        startDownload_def initiateDownloadFlooding_def Let_def)

subsection \<open>The sentinel on the wire\<close>

text \<open>
  Claim C10. A connection is idle, a valid \<^verbatim>\<open>startUpload\<close> arrives, and the next message
  is a \<^verbatim>\<open>stopUpload\<close>, with no binary frame in between. The start sends nothing; the
  stop returns the connection to idle and sends one \<^verbatim>\<open>uploadResult\<close> whose
  \<^verbatim>\<open>receivedBytes\<close> is \<open>-1\<close>, the first-payload sentinel, and whose \<^verbatim>\<open>elapsedMs\<close> is the
  time between the two messages.
\<close>

theorem stopUpload_before_first_payload_sends_sentinel:
  assumes "parseEventToAction ev1 = Some (StartUpload d)"
      and "parseEventToAction ev2 = Some StopUpload"
  shows "\<exists>s. processMessage e1 Idle ev1 = Inr (s, []) \<and>
             processMessage e2 s ev2 =
               Inr (Idle, [SendText (UploadResult (now e2 - now e1) (- 1))])"
  using assms
  by (simp add: processMessage_def STATE_HANDLERS_def startUpload_def stopUpload_def)

theorem stopUpload_before_first_payload_sends_sentinel_witness:
  "parseEventToAction (StringData (Some (JObject
       [(''type'', JString ''startUpload''), (''durationMs'', JNumber (Fin 3000))])))
     = Some (StartUpload (Fin 3000)) \<and>
   parseEventToAction (StringData (Some (JObject [(''type'', JString ''stopUpload'')])))
     = Some StopUpload \<and>
   (\<exists>s. processMessage \<lparr>now = 100, floodNow = 100, tickNow = 100, bufferedAmount = 0, timerId = 1,
             allocatable = 4294967296\<rparr>
            Idle
            (StringData (Some (JObject
               [(''type'', JString ''startUpload''), (''durationMs'', JNumber (Fin 3000))])))
          = Inr (s, []) \<and>
        processMessage \<lparr>now = 350, floodNow = 350, tickNow = 350, bufferedAmount = 0, timerId = 1,
             allocatable = 4294967296\<rparr>
            s (StringData (Some (JObject [(''type'', JString ''stopUpload'')])))
          = Inr (Idle, [SendText (UploadResult 250 (- 1))]))"
proof -
  have p1: "parseEventToAction (StringData (Some (JObject
       [(''type'', JString ''startUpload''), (''durationMs'', JNumber (Fin 3000))])))
     = Some (StartUpload (Fin 3000))"
    by (simp add: parseEventToAction_def num_le_def)
  have p2: "parseEventToAction (StringData (Some (JObject [(''type'', JString ''stopUpload'')])))
     = Some StopUpload"
    by (simp add: parseEventToAction_def)
  show ?thesis
    using p1 p2
      stopUpload_before_first_payload_sends_sentinel [OF p1 p2,
        of "\<lparr>now = 100, floodNow = 100, tickNow = 100, bufferedAmount = 0, timerId = 1,
             allocatable = 4294967296\<rparr>"
           "\<lparr>now = 350, floodNow = 350, tickNow = 350, bufferedAmount = 0, timerId = 1,
             allocatable = 4294967296\<rparr>"]
    by simp
qed

subsection \<open>The registry and its misses\<close>

text \<open>The pairs of a status and an action type that have a handler.\<close>

lemma registered_pairs:
  "(\<exists>hs h. map_of STATE_HANDLERS st = Some hs \<and> map_of hs ty = Some h) \<longleftrightarrow>
   (st, ty) \<in> {(''idle'', ''startUpload''), (''idle'', ''startDownload''),
               (''upload'', ''stopUpload''), (''upload'', ''uploadData''),
               (''download'', ''stopDownload'')}"
  by (auto simp: STATE_HANDLERS_def split: if_splits)

lemma no_handler_unchanged:
  "parseEventToAction event = Some action \<Longrightarrow>
     (status s, action_type action) \<notin>
        {(''idle'', ''startUpload''), (''idle'', ''startDownload''),
         (''upload'', ''stopUpload''), (''upload'', ''uploadData''),
         (''download'', ''stopDownload'')} \<Longrightarrow>
     processMessage e s event = Inr (s, [])"
  by (cases s; cases action) (simp_all add: processMessage_def STATE_HANDLERS_def)

lemma second_startUpload_ignored:
  "parseEventToAction event = Some (StartUpload d) \<Longrightarrow>
     processMessage e (Upload u) event = Inr (Upload u, [])"
  by (simp add: processMessage_def STATE_HANDLERS_def)

lemma binary_outside_upload_ignored:
  "status s \<noteq> ''upload'' \<Longrightarrow> processMessage e s (BinaryData n) = Inr (s, [])"
  by (cases s) (simp_all add: processMessage_def STATE_HANDLERS_def parseEventToAction_binary)

text \<open>
  Claim C8. For every state of a server connection and every action the parser accepts,
  when the pair of the state's status and the action's type is none of the five pairs of
  the registry, \<^verbatim>\<open>processMessage\<close> returns the state as it was and does nothing else. In
  particular a \<^verbatim>\<open>startUpload\<close> arriving during an upload changes nothing, and a binary
  frame arriving when the connection is not uploading changes nothing.
\<close>

theorem unregistered_pair_leaves_state_unchanged:
  "(parseEventToAction event = Some action \<and>
      (status s, action_type action) \<notin>
        {(''idle'', ''startUpload''), (''idle'', ''startDownload''),
         (''upload'', ''stopUpload''), (''upload'', ''uploadData''),
         (''download'', ''stopDownload'')}
      \<longrightarrow> processMessage e s event = Inr (s, []))
   \<and> (parseEventToAction event' = Some (StartUpload d)
      \<longrightarrow> processMessage e (Upload u) event' = Inr (Upload u, []))
   \<and> (status s' \<noteq> ''upload'' \<longrightarrow> processMessage e s' (BinaryData n) = Inr (s', []))"
  using no_handler_unchanged second_startUpload_ignored binary_outside_upload_ignored
  by blast

theorem unregistered_pair_leaves_state_unchanged_witness:
  "parseEventToAction (StringData (Some (JObject [(''type'', JString ''stopDownload'')])))
      = Some StopDownload
   \<and> (status Idle, action_type StopDownload) \<notin>
        {(''idle'', ''startUpload''), (''idle'', ''startDownload''),
         (''upload'', ''stopUpload''), (''upload'', ''uploadData''),
         (''download'', ''stopDownload'')}
   \<and> processMessage \<lparr>now = 10, floodNow = 10, tickNow = 10, bufferedAmount = 0, timerId = 1,
             allocatable = 4294967296\<rparr>
         Idle (StringData (Some (JObject [(''type'', JString ''stopDownload'')]))) = Inr (Idle, [])
   \<and> parseEventToAction (StringData (Some (JObject
         [(''type'', JString ''startUpload''), (''durationMs'', JNumber (Fin 3000))])))
      = Some (StartUpload (Fin 3000))
   \<and> processMessage \<lparr>now = 10, floodNow = 10, tickNow = 10, bufferedAmount = 0, timerId = 1,
             allocatable = 4294967296\<rparr>
         (Upload \<lparr>startTimeOnServerMs = 0, requestedDurationMs = Fin 10000, bytesReceived = 42\<rparr>)
         (StringData (Some (JObject
            [(''type'', JString ''startUpload''), (''durationMs'', JNumber (Fin 3000))])))
       = Inr (Upload \<lparr>startTimeOnServerMs = 0, requestedDurationMs = Fin 10000, bytesReceived = 42\<rparr>, [])
   \<and> status (Download \<lparr>dl_startTimeOnServerMs = 0, dl_requestedDurationMs = Fin 3000,
                         downloadFloodTimer = 7\<rparr>) \<noteq> ''upload''
   \<and> processMessage \<lparr>now = 10, floodNow = 10, tickNow = 10, bufferedAmount = 0, timerId = 1,
             allocatable = 4294967296\<rparr>
         (Download \<lparr>dl_startTimeOnServerMs = 0, dl_requestedDurationMs = Fin 3000,
                    downloadFloodTimer = 7\<rparr>) (BinaryData 1024)
       = Inr (Download \<lparr>dl_startTimeOnServerMs = 0, dl_requestedDurationMs = Fin 3000,
                    downloadFloodTimer = 7\<rparr>, [])"
proof -
  have p1: "parseEventToAction (StringData (Some (JObject [(''type'', JString ''stopDownload'')])))
      = Some StopDownload"
    by (simp add: parseEventToAction_def)
  have p2: "parseEventToAction (StringData (Some (JObject
         [(''type'', JString ''startUpload''), (''durationMs'', JNumber (Fin 3000))])))
      = Some (StartUpload (Fin 3000))"
    by (simp add: parseEventToAction_def num_le_def)
  show ?thesis
    using p1 p2
      unregistered_pair_leaves_state_unchanged
        [of "StringData (Some (JObject [(''type'', JString ''stopDownload'')]))" StopDownload Idle
            "\<lparr>now = 10, floodNow = 10, tickNow = 10, bufferedAmount = 0, timerId = 1,
             allocatable = 4294967296\<rparr>"
            "StringData (Some (JObject
               [(''type'', JString ''startUpload''), (''durationMs'', JNumber (Fin 3000))]))"
            "Fin 3000"
            "\<lparr>startTimeOnServerMs = 0, requestedDurationMs = Fin 10000, bytesReceived = 42\<rparr>"
            "Download \<lparr>dl_startTimeOnServerMs = 0, dl_requestedDurationMs = Fin 3000,
                    downloadFloodTimer = 7\<rparr>" 1024]
    by simp
qed

subsection \<open>The first payload frame\<close>

lemma uploadData_first_frame:
  "processMessage e2 (Upload (startUpload e1 d)) (BinaryData n) =
   Inr (Upload \<lparr>startTimeOnServerMs = now e2, requestedDurationMs = d, bytesReceived = 0\<rparr>, [])"
  by (simp add: processMessage_def STATE_HANDLERS_def parseEventToAction_binary startUpload_def uploadData_def)

lemma uploadData_later_frame:
  "0 \<le> bytesReceived u \<Longrightarrow>
     (\<exists>effs. processMessage e3 (Upload u) (BinaryData n2) = Inr (Idle, effs)) \<or>
     (\<exists>effs. processMessage e3 (Upload u) (BinaryData n2) =
         Inr (Upload (u\<lparr>bytesReceived := bytesReceived u + int n2\<rparr>), effs))"
  by (auto simp add: processMessage_def STATE_HANDLERS_def parseEventToAction_binary uploadData_def Let_def split: if_splits)

lemma handlePayloadMessage_first_frame:
  "c_status st = ReadyState \<Longrightarrow> direction cfg = ''download'' \<Longrightarrow>
  ws_onmessage cfg e2 (fst (startRealTest cfg e1 st)) (C_BinaryData n) =
    (\<lparr>c_status = DownloadingState
        \<lparr>downloadBytesReceived = 0, downloadStartTimeClient = c_now e2,
         downloadLastReceivedTimeClient = c_now e2, downloadCompleted = False\<rparr>,
      ws = ws st\<rparr>, [])"
  by (simp add: ws_onmessage_def startRealTest_def handlePayloadMessage_def Let_def)

lemma handlePayloadMessage_later_frame:
  "c_status st = DownloadingState d \<Longrightarrow> 0 \<le> downloadBytesReceived d \<Longrightarrow> \<not> downloadCompleted d \<Longrightarrow>
   \<exists>d'. c_status (fst (ws_onmessage cfg e st (C_BinaryData n))) = DownloadingState d' \<and>
        downloadStartTimeClient d' = downloadStartTimeClient d \<and>
        downloadBytesReceived d' = downloadBytesReceived d + int n"
  by (simp add: ws_onmessage_def handlePayloadMessage_def Let_def)

text \<open>
  Claim C1. Server, upload test: the first binary frame after \<^verbatim>\<open>startUpload\<close> is not
  counted; it sets the start time to the current time and \<^verbatim>\<open>bytesReceived\<close> to \<open>0\<close>, and
  nothing is sent. A later frame (the counter is no longer the sentinel) either ends the
  test or adds its length to the counter and leaves the start time alone, so the clock is
  reset once. Client, download test: the first binary frame after \<^verbatim>\<open>startRealTest\<close>
  started a download sets the start time to the current time and the counter to \<open>0\<close>,
  and neither sends nor displays anything; a later frame of a running test adds its
  length and leaves the start time alone.
\<close>

theorem first_payload_discarded_and_clock_reset:
  "processMessage e2 (Upload (startUpload e1 d)) (BinaryData n) =
     Inr (Upload \<lparr>startTimeOnServerMs = now e2, requestedDurationMs = d, bytesReceived = 0\<rparr>, [])
   \<and> (0 \<le> bytesReceived u \<longrightarrow>
        (\<exists>effs. processMessage e3 (Upload u) (BinaryData n2) = Inr (Idle, effs)) \<or>
        (\<exists>effs. processMessage e3 (Upload u) (BinaryData n2) =
            Inr (Upload (u\<lparr>bytesReceived := bytesReceived u + int n2\<rparr>), effs)))
   \<and> (c_status st = ReadyState \<and> direction cfg = ''download'' \<longrightarrow>
        ws_onmessage cfg c2 (fst (startRealTest cfg c1 st)) (C_BinaryData m) =
          (\<lparr>c_status = DownloadingState
              \<lparr>downloadBytesReceived = 0, downloadStartTimeClient = c_now c2,
               downloadLastReceivedTimeClient = c_now c2, downloadCompleted = False\<rparr>,
            ws = ws st\<rparr>, []))
   \<and> (c_status st' = DownloadingState dl \<and> 0 \<le> downloadBytesReceived dl \<and>
        \<not> downloadCompleted dl \<longrightarrow>
        (\<exists>dl'. c_status (fst (ws_onmessage cfg c3 st' (C_BinaryData m2))) = DownloadingState dl' \<and>
               downloadStartTimeClient dl' = downloadStartTimeClient dl \<and>
               downloadBytesReceived dl' = downloadBytesReceived dl + int m2))"
  using uploadData_first_frame uploadData_later_frame
    handlePayloadMessage_first_frame handlePayloadMessage_later_frame
  by blast

theorem first_payload_discarded_and_clock_reset_witness:
  "processMessage \<lparr>now = 130, floodNow = 130, tickNow = 130, bufferedAmount = 0, timerId = 1,
             allocatable = 4294967296\<rparr>
      (Upload (startUpload \<lparr>now = 100, floodNow = 100, tickNow = 100, bufferedAmount = 0, timerId = 1,
             allocatable = 4294967296\<rparr> (Fin 3000)))
      (BinaryData 4194304) =
     Inr (Upload \<lparr>startTimeOnServerMs = 130, requestedDurationMs = Fin 3000, bytesReceived = 0\<rparr>, [])
   \<and> ((\<exists>effs. processMessage \<lparr>now = 150, floodNow = 150, tickNow = 150, bufferedAmount = 0, timerId = 1,
             allocatable = 4294967296\<rparr>
               (Upload \<lparr>startTimeOnServerMs = 130, requestedDurationMs = Fin 3000, bytesReceived = 0\<rparr>)
               (BinaryData 4194304) = Inr (Idle, effs)) \<or>
        (\<exists>effs. processMessage \<lparr>now = 150, floodNow = 150, tickNow = 150, bufferedAmount = 0, timerId = 1,
             allocatable = 4294967296\<rparr>
               (Upload \<lparr>startTimeOnServerMs = 130, requestedDurationMs = Fin 3000, bytesReceived = 0\<rparr>)
               (BinaryData 4194304) =
            Inr (Upload \<lparr>startTimeOnServerMs = 130, requestedDurationMs = Fin 3000,
                         bytesReceived = 4194304\<rparr>, effs)))
   \<and> ws_onmessage \<lparr>direction = ''download'', durationMs = 3000, payloadSizeBytes = 4194304\<rparr>
        \<lparr>c_now = 130, c_now2 = 130, wsOpen = True, c_bufferedAmount = 0, c_timerId = 1, sendThrows = False\<rparr>
        (fst (startRealTest \<lparr>direction = ''download'', durationMs = 3000, payloadSizeBytes = 4194304\<rparr>
                \<lparr>c_now = 100, c_now2 = 100, wsOpen = True, c_bufferedAmount = 0, c_timerId = 1, sendThrows = False\<rparr>
                \<lparr>c_status = ReadyState, ws = True\<rparr>))
        (C_BinaryData 4194304) =
          (\<lparr>c_status = DownloadingState
              \<lparr>downloadBytesReceived = 0, downloadStartTimeClient = 130,
               downloadLastReceivedTimeClient = 130, downloadCompleted = False\<rparr>,
            ws = True\<rparr>, [])
   \<and> (\<exists>dl'. c_status (fst (ws_onmessage \<lparr>direction = ''download'', durationMs = 3000, payloadSizeBytes = 4194304\<rparr>
        \<lparr>c_now = 150, c_now2 = 150, wsOpen = True, c_bufferedAmount = 0, c_timerId = 1, sendThrows = False\<rparr>
        \<lparr>c_status = DownloadingState
              \<lparr>downloadBytesReceived = 0, downloadStartTimeClient = 130,
               downloadLastReceivedTimeClient = 130, downloadCompleted = False\<rparr>,
            ws = True\<rparr> (C_BinaryData 4194304))) = DownloadingState dl' \<and>
        downloadStartTimeClient dl' = 130 \<and> downloadBytesReceived dl' = 4194304)"
  using first_payload_discarded_and_clock_reset
    [of "\<lparr>now = 130, floodNow = 130, tickNow = 130, bufferedAmount = 0, timerId = 1,
             allocatable = 4294967296\<rparr>"
        "\<lparr>now = 100, floodNow = 100, tickNow = 100, bufferedAmount = 0, timerId = 1,
             allocatable = 4294967296\<rparr>"
        "Fin 3000" 4194304
        "\<lparr>startTimeOnServerMs = 130, requestedDurationMs = Fin 3000, bytesReceived = 0\<rparr>"
        "\<lparr>now = 150, floodNow = 150, tickNow = 150, bufferedAmount = 0, timerId = 1,
             allocatable = 4294967296\<rparr>"
        4194304
        "\<lparr>c_status = ReadyState, ws = True\<rparr>"
        "\<lparr>direction = ''download'', durationMs = 3000, payloadSizeBytes = 4194304\<rparr>"
        "\<lparr>c_now = 130, c_now2 = 130, wsOpen = True, c_bufferedAmount = 0, c_timerId = 1, sendThrows = False\<rparr>"
        "\<lparr>c_now = 100, c_now2 = 100, wsOpen = True, c_bufferedAmount = 0, c_timerId = 1, sendThrows = False\<rparr>"
        4194304
        "\<lparr>c_status = DownloadingState
              \<lparr>downloadBytesReceived = 0, downloadStartTimeClient = 130,
               downloadLastReceivedTimeClient = 130, downloadCompleted = False\<rparr>,
            ws = True\<rparr>"
        "\<lparr>downloadBytesReceived = 0, downloadStartTimeClient = 130,
               downloadLastReceivedTimeClient = 130, downloadCompleted = False\<rparr>"
        "\<lparr>c_now = 150, c_now2 = 150, wsOpen = True, c_bufferedAmount = 0, c_timerId = 1, sendThrows = False\<rparr>"
        4194304]
  by simp

subsection \<open>An upload test from start to result\<close>

lemma binary_frames_Cons: "binary_frames ((e, n) # cs) = (e, BinaryData n) # binary_frames cs"
  by (simp add: binary_frames_def)

lemma binary_frames_Nil: "binary_frames [] = []"
  by (simp add: binary_frames_def)

lemma uploadData_progress_step:
  assumes "0 \<le> b" and "now e - t < D"
  shows "processMessage e (Upload \<lparr>startTimeOnServerMs = t, requestedDurationMs = Fin D, bytesReceived = b\<rparr>) (BinaryData n)
     = Inr (Upload \<lparr>startTimeOnServerMs = t, requestedDurationMs = Fin D, bytesReceived = b + int n\<rparr>,
            [SendText (UploadProgress (now e - t) (b + int n)
                (num_min (num_mul (num_div (Fin (now e - t)) (Fin D)) (Fin 100)) (Fin 100)))])"
  using assms
  by (simp add: processMessage_def STATE_HANDLERS_def parseEventToAction_binary uploadData_def Let_def)

lemma uploadData_result_step:
  assumes "0 \<le> b" and "now e - t \<ge> D"
  shows "processMessage e (Upload \<lparr>startTimeOnServerMs = t, requestedDurationMs = Fin D, bytesReceived = b\<rparr>) (BinaryData n)
     = Inr (Idle, [SendText (UploadResult (now e - t) (b + int n))])"
  using assms
  by (simp add: processMessage_def STATE_HANDLERS_def parseEventToAction_binary uploadData_def Let_def)

lemma upload_run:
  assumes "0 \<le> b" and "\<forall>(e, n) \<in> set pre. now e - t < D" and "now ek - t \<ge> D"
  shows "\<exists>progs. processMessages (Upload \<lparr>startTimeOnServerMs = t, requestedDurationMs = Fin D, bytesReceived = b\<rparr>)
            (binary_frames (pre @ [(ek, nk)]))
          = Inr (Idle, progs @ [SendText (UploadResult (now ek - t) (b + int (sum_list (map snd pre)) + int nk))])
        \<and> list_all is_progress progs \<and> length progs = length pre"
  using assms
proof (induction pre arbitrary: b)
  case Nil
  then show ?case
    by (simp add: binary_frames_Cons binary_frames_Nil uploadData_result_step)
next
  case (Cons c pre)
  obtain e n where c: "c = (e, n)" by (cases c)
  from Cons.prems c have lt: "now e - t < D" by simp
  have b': "0 \<le> b + int n" using Cons.prems(1) by simp
  from Cons.prems have rest: "\<forall>(e, n) \<in> set pre. now e - t < D" by simp
  from Cons.IH [OF b' rest Cons.prems(3)] obtain progs where
    run: "processMessages (Upload \<lparr>startTimeOnServerMs = t, requestedDurationMs = Fin D, bytesReceived = b + int n\<rparr>)
            (binary_frames (pre @ [(ek, nk)]))
          = Inr (Idle, progs @ [SendText (UploadResult (now ek - t) (b + int n + int (sum_list (map snd pre)) + int nk))])"
    and pr: "list_all is_progress progs" and len: "length progs = length pre"
    by blast
  let ?p = "SendText (UploadProgress (now e - t) (b + int n)
                (num_min (num_mul (num_div (Fin (now e - t)) (Fin D)) (Fin 100)) (Fin 100)))"
  have "processMessages (Upload \<lparr>startTimeOnServerMs = t, requestedDurationMs = Fin D, bytesReceived = b\<rparr>)
            (binary_frames ((c # pre) @ [(ek, nk)]))
      = Inr (Idle, (?p # progs) @ [SendText (UploadResult (now ek - t) (b + int (sum_list (map snd (c # pre))) + int nk))])"
    using run c by (simp add: binary_frames_Cons uploadData_progress_step [OF Cons.prems(1) lt] add.assoc add.commute add.left_commute)
  moreover have "list_all is_progress (?p # progs)" using pr by simp
  moreover have "length (?p # progs) = length (c # pre)" using len by simp
  ultimately show ?case by blast
qed


text \<open>A result sent by \<^verbatim>\<open>uploadData\<close> never reports less than the requested duration.\<close>

lemma uploadData_result_not_before_duration:
  assumes "uploadData e state n = (s, effs)"
      and "SendText (UploadResult elapsedMs receivedBytes) \<in> set effs"
  shows "s = Idle \<and> elapsedMs = now e - startTimeOnServerMs state \<and>
         num_ge (Fin elapsedMs) (requestedDurationMs state)"
  using assms by (auto simp: uploadData_def Let_def split: if_splits)

text \<open>
  Claim C6. An idle connection receives a valid \<^verbatim>\<open>startUpload\<close> of duration \<open>D\<close> and then
  binary frames. The first frame is discarded and sets the start time. While the time
  since then is below \<open>D\<close> each frame is answered by one \<^verbatim>\<open>uploadProgress\<close>. The first
  frame that arrives \<open>D\<close> or more after the first is answered by an \<^verbatim>\<open>uploadResult\<close>
  whose \<^verbatim>\<open>elapsedMs\<close> is the time since the first frame (so at least \<open>D\<close>) and whose
  \<^verbatim>\<open>receivedBytes\<close> is the sum of the lengths of all the frames but the first, and the
  connection is idle again.
\<close>

theorem upload_result_at_first_chunk_past_duration:
  assumes "parseEventToAction start = Some (StartUpload (Fin D))"
      and "\<forall>(e, n) \<in> set pre. now e - now e1 < D"
      and "D \<le> now ek - now e1"
  shows "\<exists>progs.
           processMessages Idle ((e0, start) # binary_frames ((e1, n1) # pre @ [(ek, nk)])) =
             Inr (Idle, progs @ [SendText (UploadResult (now ek - now e1)
                                    (int (sum_list (map snd pre)) + int nk))])
           \<and> list_all is_progress progs \<and> length progs = length pre"
proof -
  have first: "processMessage e0 Idle start = Inr (Upload (startUpload e0 (Fin D)), [])"
    using assms(1) by (simp add: processMessage_def STATE_HANDLERS_def)
  have second: "processMessage e1 (Upload (startUpload e0 (Fin D))) (BinaryData n1) =
     Inr (Upload \<lparr>startTimeOnServerMs = now e1, requestedDurationMs = Fin D, bytesReceived = 0\<rparr>, [])"
    by (simp add: processMessage_def STATE_HANDLERS_def parseEventToAction_binary startUpload_def uploadData_def)
  from upload_run [of 0 pre "now e1" D ek nk] assms(2,3) obtain progs where
    run: "processMessages (Upload \<lparr>startTimeOnServerMs = now e1, requestedDurationMs = Fin D, bytesReceived = 0\<rparr>)
            (binary_frames (pre @ [(ek, nk)]))
          = Inr (Idle, progs @ [SendText (UploadResult (now ek - now e1) (int (sum_list (map snd pre)) + int nk))])"
    and pr: "list_all is_progress progs" and len: "length progs = length pre"
    by auto
  have "processMessages Idle ((e0, start) # binary_frames ((e1, n1) # pre @ [(ek, nk)])) =
             Inr (Idle, progs @ [SendText (UploadResult (now ek - now e1)
                                    (int (sum_list (map snd pre)) + int nk))])"
    using first second run by (simp add: binary_frames_Cons)
  with pr len show ?thesis by blast
qed

theorem upload_result_at_first_chunk_past_duration_witness:
  "parseEventToAction (StringData (Some (JObject
       [(''type'', JString ''startUpload''), (''durationMs'', JNumber (Fin 3000))])))
     = Some (StartUpload (Fin 3000))
   \<and> now \<lparr>now = 120, floodNow = 0, tickNow = 0, bufferedAmount = 0, timerId = 1,
             allocatable = 4294967296\<rparr>
         - now \<lparr>now = 100, floodNow = 0, tickNow = 0, bufferedAmount = 0, timerId = 1,
             allocatable = 4294967296\<rparr> < (3000::real)
   \<and> now \<lparr>now = 2000, floodNow = 0, tickNow = 0, bufferedAmount = 0, timerId = 1,
             allocatable = 4294967296\<rparr>
         - now \<lparr>now = 100, floodNow = 0, tickNow = 0, bufferedAmount = 0, timerId = 1,
             allocatable = 4294967296\<rparr> < (3000::real)
   \<and> (3000::real) \<le> now \<lparr>now = 3100, floodNow = 0, tickNow = 0, bufferedAmount = 0, timerId = 1,
             allocatable = 4294967296\<rparr>
                      - now \<lparr>now = 100, floodNow = 0, tickNow = 0, bufferedAmount = 0, timerId = 1,
             allocatable = 4294967296\<rparr>
   \<and> (\<exists>progs.
         processMessages Idle
           ((\<lparr>now = 0, floodNow = 0, tickNow = 0, bufferedAmount = 0, timerId = 1,
             allocatable = 4294967296\<rparr>,
             StringData (Some (JObject
               [(''type'', JString ''startUpload''), (''durationMs'', JNumber (Fin 3000))])))
            # binary_frames
                [(\<lparr>now = 100, floodNow = 0, tickNow = 0, bufferedAmount = 0, timerId = 1,
             allocatable = 4294967296\<rparr>, 4194304),
                 (\<lparr>now = 120, floodNow = 0, tickNow = 0, bufferedAmount = 0, timerId = 1,
             allocatable = 4294967296\<rparr>, 4194304),
                 (\<lparr>now = 2000, floodNow = 0, tickNow = 0, bufferedAmount = 0, timerId = 1,
             allocatable = 4294967296\<rparr>, 4194304),
                 (\<lparr>now = 3100, floodNow = 0, tickNow = 0, bufferedAmount = 0, timerId = 1,
             allocatable = 4294967296\<rparr>, 4194304)])
         = Inr (Idle, progs @ [SendText (UploadResult 3000 12582912)])
         \<and> list_all is_progress progs \<and> length progs = 2)"
proof -
  have p: "parseEventToAction (StringData (Some (JObject
       [(''type'', JString ''startUpload''), (''durationMs'', JNumber (Fin 3000))])))
     = Some (StartUpload (Fin 3000))"
    by (simp add: parseEventToAction_def num_le_def)
  have q: "\<forall>(e, n) \<in> set [(\<lparr>now = 120, floodNow = 0, tickNow = 0, bufferedAmount = 0, timerId = 1,
             allocatable = 4294967296\<rparr>, 4194304::nat),
                        (\<lparr>now = 2000, floodNow = 0, tickNow = 0, bufferedAmount = 0, timerId = 1,
             allocatable = 4294967296\<rparr>, 4194304)].
          now e - now \<lparr>now = 100, floodNow = 0, tickNow = 0, bufferedAmount = 0, timerId = 1,
             allocatable = 4294967296\<rparr> < 3000"
    by simp
  have r: "(3000::real) \<le> now \<lparr>now = 3100, floodNow = 0, tickNow = 0, bufferedAmount = 0, timerId = 1,
             allocatable = 4294967296\<rparr>
                      - now \<lparr>now = 100, floodNow = 0, tickNow = 0, bufferedAmount = 0, timerId = 1,
             allocatable = 4294967296\<rparr>"
    by simp
  show ?thesis
    using p q r
      upload_result_at_first_chunk_past_duration [OF p q r,
        of "\<lparr>now = 0, floodNow = 0, tickNow = 0, bufferedAmount = 0, timerId = 1,
             allocatable = 4294967296\<rparr>" 4194304 4194304]
    by (simp add: numeral_2_eq_2)
qed


subsection \<open>Cancelling the download flood\<close>

lemma cleanup_twice:
  "cleanupForDownloadFlood (fst (cleanupForDownloadFlood cs)) = (fst (cleanupForDownloadFlood cs), [])"
  by (auto simp: cleanupForDownloadFlood_def FLOOD_CANCELLED_def split: option.splits ClientState.splits)

lemma cleanup_after_stop:
  "cleanupForDownloadFlood (Some (fst (stopDownload d))) = (Some (fst (stopDownload d)), [])"
  by (simp add: cleanupForDownloadFlood_def stopDownload_def)

lemma cleanup_running:
  "downloadFloodTimer d > 0 \<Longrightarrow>
     cleanupForDownloadFlood (Some (Download d)) =
       (Some (Download (d\<lparr>downloadFloodTimer := FLOOD_CANCELLED\<rparr>)), [ClearTimeout (downloadFloodTimer d)])"
  by (simp add: cleanupForDownloadFlood_def)

lemma tick_after_cancel:
  "sendDownloadChunk fl e (d\<lparr>downloadFloodTimer := FLOOD_CANCELLED\<rparr>) =
     (d\<lparr>downloadFloodTimer := FLOOD_CANCELLED\<rparr>, [])"
  by (simp add: sendDownloadChunk_def)

text \<open>
  Claim C9. Running \<^verbatim>\<open>cleanupForDownloadFlood\<close> a second time changes nothing and does
  nothing; so does running it after \<^verbatim>\<open>stopDownload\<close>. On a running flood the first run
  clears the pending timer and sets the marker \<open>FLOOD_CANCELLED\<close>. Once the marker is
  set, \<^verbatim>\<open>sendDownloadChunk\<close> neither sends nor sets a timer, whatever the outbound
  buffer holds. None of these can raise an exception.
\<close>

theorem download_flood_cancellation_idempotent:
  "cleanupForDownloadFlood (fst (cleanupForDownloadFlood cs)) =
     (fst (cleanupForDownloadFlood cs), [])
   \<and> cleanupForDownloadFlood (Some (fst (stopDownload d))) = (Some (fst (stopDownload d)), [])
   \<and> (downloadFloodTimer d' > 0 \<longrightarrow>
        cleanupForDownloadFlood (Some (Download d')) =
          (Some (Download (d'\<lparr>downloadFloodTimer := FLOOD_CANCELLED\<rparr>)),
           [ClearTimeout (downloadFloodTimer d')]))
   \<and> sendDownloadChunk fl e (d''\<lparr>downloadFloodTimer := FLOOD_CANCELLED\<rparr>) =
        (d''\<lparr>downloadFloodTimer := FLOOD_CANCELLED\<rparr>, [])"
  using cleanup_twice cleanup_after_stop cleanup_running tick_after_cancel by blast

theorem download_flood_cancellation_idempotent_witness:
  "cleanupForDownloadFlood (fst (cleanupForDownloadFlood
      (Some (Download \<lparr>dl_startTimeOnServerMs = 0, dl_requestedDurationMs = Fin 3000,
                       downloadFloodTimer = 7\<rparr>)))) =
     (Some (Download \<lparr>dl_startTimeOnServerMs = 0, dl_requestedDurationMs = Fin 3000,
                      downloadFloodTimer = - 2\<rparr>), [])
   \<and> cleanupForDownloadFlood (Some (fst (stopDownload
        \<lparr>dl_startTimeOnServerMs = 0, dl_requestedDurationMs = Fin 3000, downloadFloodTimer = 7\<rparr>)))
      = (Some Idle, [])
   \<and> (0::int) < 7
   \<and> cleanupForDownloadFlood
        (Some (Download \<lparr>dl_startTimeOnServerMs = 0, dl_requestedDurationMs = Fin 3000,
                         downloadFloodTimer = 7\<rparr>)) =
        (Some (Download \<lparr>dl_startTimeOnServerMs = 0, dl_requestedDurationMs = Fin 3000,
                         downloadFloodTimer = - 2\<rparr>), [ClearTimeout 7])
   \<and> sendDownloadChunk
        \<lparr>floodStartTimeMs = 0, fl_requestedDurationMs = Fin 3000,
         backpressureThresholdBytes = Fin 8388608, fl_payload = 4194304\<rparr>
        \<lparr>now = 50, floodNow = 50, tickNow = 50, bufferedAmount = 0, timerId = 8,
             allocatable = 4294967296\<rparr>
        \<lparr>dl_startTimeOnServerMs = 0, dl_requestedDurationMs = Fin 3000, downloadFloodTimer = - 2\<rparr>
      = (\<lparr>dl_startTimeOnServerMs = 0, dl_requestedDurationMs = Fin 3000,
          downloadFloodTimer = - 2\<rparr>, [])"
  using download_flood_cancellation_idempotent
    [of "Some (Download \<lparr>dl_startTimeOnServerMs = 0, dl_requestedDurationMs = Fin 3000,
                          downloadFloodTimer = 7\<rparr>)"
        "\<lparr>dl_startTimeOnServerMs = 0, dl_requestedDurationMs = Fin 3000, downloadFloodTimer = 7\<rparr>"
        "\<lparr>dl_startTimeOnServerMs = 0, dl_requestedDurationMs = Fin 3000, downloadFloodTimer = 7\<rparr>"
        "\<lparr>floodStartTimeMs = 0, fl_requestedDurationMs = Fin 3000,
          backpressureThresholdBytes = Fin 8388608, fl_payload = 4194304\<rparr>"
        "\<lparr>now = 50, floodNow = 50, tickNow = 50, bufferedAmount = 0, timerId = 8,
             allocatable = 4294967296\<rparr>"
        "\<lparr>dl_startTimeOnServerMs = 0, dl_requestedDurationMs = Fin 3000, downloadFloodTimer = 7\<rparr>"]
  by (simp add: FLOOD_CANCELLED_def stopDownload_def cleanupForDownloadFlood_def)

subsection \<open>The speed shown to the user\<close>

lemma speedMbps_of_finite:
  "elapsedMs \<noteq> 0 \<Longrightarrow>
     speedMbps_of (Fin bytes) (Fin elapsedMs) = Fin (bytes * 8 * 1000 / elapsedMs / (1024 * 1024))"
  by (simp add: speedMbps_of_def)

lemma bytesKiB_of_int: "bytesKiB_of (Fin (of_int b)) = Fin (of_int (b div 1024))"
  by (simp add: bytesKiB_of_def floor_divide_of_int_eq [of b 1024, simplified])

lemma upload_progress_speed:
  "is_upload (c_status st) \<Longrightarrow> elapsedMs \<noteq> 0 \<Longrightarrow>
   snd (handleServerMessage e st (UploadProgress elapsedMs receivedBytes pct)) =
     [UpdateSpeedDisplay (Fin (of_int receivedBytes * 8 * 1000 / elapsedMs / (1024 * 1024)))
        ''Testing... upload'' (KiB_transferred (Fin (of_int (receivedBytes div 1024)))) pct]"
  by (simp add: handleServerMessage_def speedMbps_of_finite bytesKiB_of_int)

lemma upload_result_speed:
  "is_upload (c_status st) \<Longrightarrow> elapsedMs \<noteq> 0 \<Longrightarrow>
   hd (snd (handleServerMessage e st (UploadResult elapsedMs receivedBytes))) =
     UpdateSpeedDisplay (Fin (of_int receivedBytes * 8 * 1000 / elapsedMs / (1024 * 1024)))
        ''Complete'' (KiB_total (Fin (of_int (receivedBytes div 1024)))) (Fin 100)"
  by (simp add: handleServerMessage_def speedMbps_of_finite bytesKiB_of_int Let_def)

lemma download_progress_speed:
  "c_status st = DownloadingState d \<Longrightarrow> \<not> downloadCompleted d \<Longrightarrow> downloadBytesReceived d \<noteq> - 1 \<Longrightarrow>
   0 < c_now2 e - downloadStartTimeClient d \<Longrightarrow>
   (\<exists>status progress pct.
   hd (snd (handlePayloadMessage cfg e st n)) =
     UpdateSpeedDisplay
       (Fin (of_int \<lfloor>of_int ((downloadBytesReceived d + int n) * 8 * 1000)
                       / (c_now2 e - downloadStartTimeClient d)\<rfloor> / (1024 * 1024)))
       status progress pct)"
  by (simp add: handlePayloadMessage_def Let_def)

lemma download_complete_speed:
  "c_status st = DownloadingState d \<Longrightarrow> 0 < downloadLastReceivedTimeClient d \<Longrightarrow>
   downloadLastReceivedTimeClient d \<noteq> downloadStartTimeClient d \<Longrightarrow>
   hd (snd (handleServerMessage e st DownloadComplete)) =
     UpdateSpeedDisplay
       (Fin (of_int (downloadBytesReceived d) * 8 * 1000
              / (downloadLastReceivedTimeClient d - downloadStartTimeClient d) / (1024 * 1024)))
       ''Complete'' (KiB_total (Fin (of_int (downloadBytesReceived d div 1024)))) (Fin 100)"
  by (simp add: handleServerMessage_def download_display_def speedMbps_of_finite bytesKiB_of_int Let_def)

lemma download_progress_speed_zero:
  "c_status st = DownloadingState d \<Longrightarrow> \<not> downloadCompleted d \<Longrightarrow>
   downloadBytesReceived d \<noteq> - 1 \<Longrightarrow> c_now2 e - downloadStartTimeClient d \<le> 0 \<Longrightarrow>
   (\<exists>status progress pct.
      hd (snd (handlePayloadMessage cfg e st n)) =
        UpdateSpeedDisplay (Fin 0) status progress pct)"
  by (simp add: handlePayloadMessage_def Let_def)

lemma download_complete_speed_no_frame_time:
  "c_status st = DownloadingState d \<Longrightarrow> downloadLastReceivedTimeClient d \<le> 0 \<Longrightarrow>
   c_now e \<noteq> downloadStartTimeClient d \<Longrightarrow>
   hd (snd (handleServerMessage e st DownloadComplete)) =
     UpdateSpeedDisplay
       (Fin (of_int (downloadBytesReceived d) * 8 * 1000
              / (c_now e - downloadStartTimeClient d) / (1024 * 1024)))
       ''Complete'' (KiB_total (Fin (of_int (downloadBytesReceived d div 1024)))) (Fin 100)"
  by (simp add: handleServerMessage_def download_display_def speedMbps_of_finite bytesKiB_of_int
        Let_def)

text \<open>
  Claim C3, as it is written, fails. An \<^verbatim>\<open>uploadProgress\<close> reporting \<open>1048576\<close> bytes in
  \<open>8000\<close> ms is a throughput of \<open>1048576\<close> bits per second; the client displays the speed
  \<open>1\<close>, which is that figure divided by \<open>1024 * 1024\<close>, and not \<open>1.048576\<close>, which is that
  figure divided by \<open>1000000\<close>.
\<close>

theorem displayed_speed_decimal_mega_counterexample:
  "handleServerMessage
     \<lparr>c_now = 8100, c_now2 = 8100, wsOpen = True, c_bufferedAmount = 0, c_timerId = 9, sendThrows = False\<rparr>
     \<lparr>c_status = UploadingState \<lparr>uploadInterval = 8, uploadPayload = 4194304\<rparr>, ws = True\<rparr>
     (UploadProgress 8000 1048576 (Fin 80))
   = (\<lparr>c_status = UploadingState \<lparr>uploadInterval = 8, uploadPayload = 4194304\<rparr>, ws = True\<rparr>,
      [UpdateSpeedDisplay (Fin 1) ''Testing... upload'' (KiB_transferred (Fin 1024)) (Fin 80)])
   \<and> (1::real) \<noteq> 1048576 * 8 * 1000 / 8000 / 1000000"
  by (simp add: handleServerMessage_def speedMbps_of_def bytesKiB_of_def)

text \<open>
  Claim C3, amended. In both directions the speed passed to the display is
  \<open>bytes * 8 * 1000 / elapsedMs\<close> divided by the binary constant \<open>1024 * 1024\<close>. For an
  upload the bytes and the time are the fields of the server's \<^verbatim>\<open>uploadProgress\<close> and
  \<^verbatim>\<open>uploadResult\<close> (with \<^verbatim>\<open>elapsedMs\<close> not zero). For the progress of a download they
  are the client's byte count and the time since the clock reset; the bits per second
  are rounded down to an integer before the division when that time is positive, and
  the speed displayed is \<open>0\<close> when it is not. For the result of a download, displayed on
  \<^verbatim>\<open>downloadComplete\<close>, they are the client's byte count and the time from the clock
  reset to the last frame, or to the current time when no time of a last frame is
  recorded (that time not being zero).
\<close>

theorem displayed_speed_divides_by_binary_mega:
  "(is_upload (c_status st) \<and> elapsedMs \<noteq> 0 \<longrightarrow>
      snd (handleServerMessage e st (UploadProgress elapsedMs receivedBytes pct)) =
        [UpdateSpeedDisplay (Fin (of_int receivedBytes * 8 * 1000 / elapsedMs / (1024 * 1024)))
           ''Testing... upload'' (KiB_transferred (Fin (of_int (receivedBytes div 1024)))) pct])
   \<and> (is_upload (c_status st) \<and> elapsedMs \<noteq> 0 \<longrightarrow>
      hd (snd (handleServerMessage e st (UploadResult elapsedMs receivedBytes))) =
        UpdateSpeedDisplay (Fin (of_int receivedBytes * 8 * 1000 / elapsedMs / (1024 * 1024)))
          ''Complete'' (KiB_total (Fin (of_int (receivedBytes div 1024)))) (Fin 100))
   \<and> (c_status st' = DownloadingState d \<and> \<not> downloadCompleted d \<and>
       downloadBytesReceived d \<noteq> - 1 \<and> 0 < c_now2 e - downloadStartTimeClient d \<longrightarrow>
      (\<exists>status progress pct'.
         hd (snd (handlePayloadMessage cfg e st' n)) =
           UpdateSpeedDisplay
             (Fin (of_int \<lfloor>of_int ((downloadBytesReceived d + int n) * 8 * 1000)
                             / (c_now2 e - downloadStartTimeClient d)\<rfloor> / (1024 * 1024)))
             status progress pct'))
   \<and> (c_status st' = DownloadingState d \<and> 0 < downloadLastReceivedTimeClient d \<and>
       downloadLastReceivedTimeClient d \<noteq> downloadStartTimeClient d \<longrightarrow>
      hd (snd (handleServerMessage e st' DownloadComplete)) =
        UpdateSpeedDisplay
          (Fin (of_int (downloadBytesReceived d) * 8 * 1000
                 / (downloadLastReceivedTimeClient d - downloadStartTimeClient d) / (1024 * 1024)))
          ''Complete'' (KiB_total (Fin (of_int (downloadBytesReceived d div 1024)))) (Fin 100))
   \<and> (c_status st0 = DownloadingState d0 \<and> \<not> downloadCompleted d0 \<and>
       downloadBytesReceived d0 \<noteq> - 1 \<and> c_now2 e0 - downloadStartTimeClient d0 \<le> 0 \<longrightarrow>
      (\<exists>status progress pct'.
         hd (snd (handlePayloadMessage cfg e0 st0 n)) =
           UpdateSpeedDisplay (Fin 0) status progress pct'))
   \<and> (c_status st1 = DownloadingState d1 \<and> downloadLastReceivedTimeClient d1 \<le> 0 \<and>
       c_now e \<noteq> downloadStartTimeClient d1 \<longrightarrow>
      hd (snd (handleServerMessage e st1 DownloadComplete)) =
        UpdateSpeedDisplay
          (Fin (of_int (downloadBytesReceived d1) * 8 * 1000
                 / (c_now e - downloadStartTimeClient d1) / (1024 * 1024)))
          ''Complete'' (KiB_total (Fin (of_int (downloadBytesReceived d1 div 1024)))) (Fin 100))"
  using upload_progress_speed [of st elapsedMs e receivedBytes pct]
    upload_result_speed [of st elapsedMs e receivedBytes]
    download_progress_speed [of st' d e cfg n]
    download_complete_speed [of st' d e]
    download_progress_speed_zero [of st0 d0 e0 cfg n]
    download_complete_speed_no_frame_time [of st1 d1 e]
  by blast

theorem displayed_speed_divides_by_binary_mega_witness:
  "snd (handleServerMessage
          \<lparr>c_now = 8100, c_now2 = 8100, wsOpen = True, c_bufferedAmount = 0, c_timerId = 9,
           sendThrows = False\<rparr>
          \<lparr>c_status = UploadingState \<lparr>uploadInterval = 8, uploadPayload = 4194304\<rparr>, ws = True\<rparr>
          (UploadProgress 8000 1048576 (Fin 80)))
     = [UpdateSpeedDisplay (Fin 1) ''Testing... upload'' (KiB_transferred (Fin 1024)) (Fin 80)]
   \<and> hd (snd (handleServerMessage
          \<lparr>c_now = 8100, c_now2 = 8100, wsOpen = True, c_bufferedAmount = 0, c_timerId = 9,
           sendThrows = False\<rparr>
          \<lparr>c_status = UploadingState \<lparr>uploadInterval = 8, uploadPayload = 4194304\<rparr>, ws = True\<rparr>
          (UploadResult 8000 1048576)))
     = UpdateSpeedDisplay (Fin 1) ''Complete'' (KiB_total (Fin 1024)) (Fin 100)
   \<and> hd (snd (handlePayloadMessage
          \<lparr>direction = ''download'', durationMs = 10000, payloadSizeBytes = 1048576\<rparr>
          \<lparr>c_now = 8100, c_now2 = 8100, wsOpen = True, c_bufferedAmount = 0, c_timerId = 9,
           sendThrows = False\<rparr>
          \<lparr>c_status = DownloadingState
             \<lparr>downloadBytesReceived = 1048576, downloadStartTimeClient = 100,
              downloadLastReceivedTimeClient = 8100, downloadCompleted = False\<rparr>, ws = True\<rparr>
          1048576))
     = UpdateSpeedDisplay (Fin 2) ''Testing... download'' (KiB_received (Fin 2048)) (Fin 80)
   \<and> hd (snd (handleServerMessage
          \<lparr>c_now = 8100, c_now2 = 8100, wsOpen = True, c_bufferedAmount = 0, c_timerId = 9,
           sendThrows = False\<rparr>
          \<lparr>c_status = DownloadingState
             \<lparr>downloadBytesReceived = 1048576, downloadStartTimeClient = 100,
              downloadLastReceivedTimeClient = 8100, downloadCompleted = False\<rparr>, ws = True\<rparr>
          DownloadComplete))
     = UpdateSpeedDisplay (Fin 1) ''Complete'' (KiB_total (Fin 1024)) (Fin 100)
   \<and> hd (snd (handlePayloadMessage
          \<lparr>direction = ''download'', durationMs = 10000, payloadSizeBytes = 1048576\<rparr>
          \<lparr>c_now = 100, c_now2 = 100, wsOpen = True, c_bufferedAmount = 0, c_timerId = 9,
           sendThrows = False\<rparr>
          \<lparr>c_status = DownloadingState
             \<lparr>downloadBytesReceived = 0, downloadStartTimeClient = 100,
              downloadLastReceivedTimeClient = 100, downloadCompleted = False\<rparr>, ws = True\<rparr>
          1048576))
     = UpdateSpeedDisplay (Fin 0) ''Testing... download'' (KiB_received (Fin 1024)) (Fin 0)
   \<and> hd (snd (handleServerMessage
          \<lparr>c_now = 8100, c_now2 = 8100, wsOpen = True, c_bufferedAmount = 0, c_timerId = 9,
           sendThrows = False\<rparr>
          \<lparr>c_status = DownloadingState
             \<lparr>downloadBytesReceived = 1048576, downloadStartTimeClient = 100,
              downloadLastReceivedTimeClient = 0, downloadCompleted = False\<rparr>, ws = True\<rparr>
          DownloadComplete))
     = UpdateSpeedDisplay (Fin 1) ''Complete'' (KiB_total (Fin 1024)) (Fin 100)"
  using displayed_speed_divides_by_binary_mega
    [where st = "\<lparr>c_status = UploadingState \<lparr>uploadInterval = 8, uploadPayload = 4194304\<rparr>,
                  ws = True\<rparr>"
       and elapsedMs = 8000 and receivedBytes = 1048576 and pct = "Fin 80"
       and e = "\<lparr>c_now = 8100, c_now2 = 8100, wsOpen = True, c_bufferedAmount = 0, c_timerId = 9,
                  sendThrows = False\<rparr>"
       and st' = "\<lparr>c_status = DownloadingState
             \<lparr>downloadBytesReceived = 1048576, downloadStartTimeClient = 100,
              downloadLastReceivedTimeClient = 8100, downloadCompleted = False\<rparr>, ws = True\<rparr>"
       and d = "\<lparr>downloadBytesReceived = 1048576, downloadStartTimeClient = 100,
              downloadLastReceivedTimeClient = 8100, downloadCompleted = False\<rparr>"
       and cfg = "\<lparr>direction = ''download'', durationMs = 10000, payloadSizeBytes = 1048576\<rparr>"
       and n = 1048576
       and ?st0.0 = "\<lparr>c_status = DownloadingState
             \<lparr>downloadBytesReceived = 0, downloadStartTimeClient = 100,
              downloadLastReceivedTimeClient = 100, downloadCompleted = False\<rparr>, ws = True\<rparr>"
       and ?d0.0 = "\<lparr>downloadBytesReceived = 0, downloadStartTimeClient = 100,
              downloadLastReceivedTimeClient = 100, downloadCompleted = False\<rparr>"
       and ?e0.0 = "\<lparr>c_now = 100, c_now2 = 100, wsOpen = True, c_bufferedAmount = 0,
              c_timerId = 9, sendThrows = False\<rparr>"
       and ?st1.0 = "\<lparr>c_status = DownloadingState
             \<lparr>downloadBytesReceived = 1048576, downloadStartTimeClient = 100,
              downloadLastReceivedTimeClient = 0, downloadCompleted = False\<rparr>, ws = True\<rparr>"
       and ?d1.0 = "\<lparr>downloadBytesReceived = 1048576, downloadStartTimeClient = 100,
              downloadLastReceivedTimeClient = 0, downloadCompleted = False\<rparr>"]
  by (simp add: handlePayloadMessage_def bytesKiB_of_def num_le_def Let_def)

subsection \<open>The two floods\<close>

lemma initiateDownloadFlooding_fields:
  assumes "initiateDownloadFlooding e0 d0 D P = Inr (fl, d1, effs0)"
  shows "floodStartTimeMs fl = floodNow e0" and "fl_requestedDurationMs fl = D"
    and "backpressureThresholdBytes fl = num_mul (Fin 2) P"
    and "new_ArrayBuffer (allocatable e0) P = Some (fl_payload fl)"
    and "(d1, effs0) = sendDownloadChunk fl e0 d0"
  using assms
  by (auto simp: initiateDownloadFlooding_def Let_def split: option.splits)

lemma sendDownloadChunk_sends:
  assumes "downloadFloodTimer d \<noteq> FLOOD_CANCELLED"
      and "backpressureThresholdBytes fl = Fin thr" and "real (bufferedAmount e) < thr"
      and "fl_requestedDurationMs fl = Fin D"
  shows "sendDownloadChunk fl e d =
     (if D + 500 \<le> tickNow e - floodStartTimeMs fl
      then (d\<lparr>downloadFloodTimer := FLOOD_CANCELLED\<rparr>, [SendBinary (fl_payload fl)])
      else (d\<lparr>downloadFloodTimer := timerId e\<rparr>, [SendBinary (fl_payload fl), SetTimeout 0]))"
  using assms
  by (simp add: sendDownloadChunk_def DOWNLOAD_DURATION_BUFFER_MS_def Let_def)

lemma sendDownloadChunk_backpressure:
  assumes "downloadFloodTimer d \<noteq> FLOOD_CANCELLED"
      and "backpressureThresholdBytes fl = Fin thr" and "thr \<le> real (bufferedAmount e)"
  shows "sendDownloadChunk fl e d = (d\<lparr>downloadFloodTimer := timerId e\<rparr>, [SetTimeout 1])"
  using assms
  by (simp add: sendDownloadChunk_def)

lemma sendDownloadChunk_send_below_threshold:
  assumes "backpressureThresholdBytes fl = Fin thr"
      and "SendBinary n \<in> set (snd (sendDownloadChunk fl e d))"
  shows "real (bufferedAmount e) < thr"
  using assms
  by (auto simp: sendDownloadChunk_def Let_def split: if_splits)

lemma sendUploadChunk_reads_no_clock:
  "sendUploadChunk payload (e\<lparr>c_now := t, c_now2 := t'\<rparr>) st = sendUploadChunk payload e st"
  by (simp add: sendUploadChunk_def resetToIdle_def Let_def split: c_status.splits)

lemma sendUploadChunk_sends:
  "c_status st = UploadingState u \<Longrightarrow> ws st \<Longrightarrow> wsOpen e \<Longrightarrow>
   c_bufferedAmount e < BACKPRESSURE_THRESHOLD_BYTES \<Longrightarrow> \<not> sendThrows e \<Longrightarrow>
   sendUploadChunk payload e st =
     (st\<lparr>c_status := UploadingState (u\<lparr>uploadInterval := c_timerId e\<rparr>)\<rparr>,
      [SendPayload payload, SetTimeoutUpload 0])"
  by (simp add: sendUploadChunk_def)

lemma sendUploadChunk_backpressure:
  "c_status st = UploadingState u \<Longrightarrow> ws st \<Longrightarrow> wsOpen e \<Longrightarrow>
   BACKPRESSURE_THRESHOLD_BYTES \<le> c_bufferedAmount e \<Longrightarrow>
   sendUploadChunk payload e st =
     (st\<lparr>c_status := UploadingState (u\<lparr>uploadInterval := c_timerId e\<rparr>)\<rparr>,
      [SetTimeoutUpload 1])"
  by (simp add: sendUploadChunk_def)

lemma sendUploadChunk_send_below_threshold:
  "SendPayload n \<in> set (snd (sendUploadChunk payload e st)) \<Longrightarrow>
   c_bufferedAmount e < 16 * 1024 * 1024"
  by (auto simp: sendUploadChunk_def stopUploadTest_def resetToIdle_def Let_def
        BACKPRESSURE_THRESHOLD_BYTES_def MiB_def split: c_status.splits if_splits)

lemma sendUploadChunk_outside_upload:
  "\<not> is_upload (c_status st) \<Longrightarrow> sendUploadChunk payload c st = (st, [])"
  by (cases "c_status st") (simp_all add: sendUploadChunk_def stopUploadTest_def)

lemma sendUploadChunk_socket_not_open:
  "c_status st = UploadingState u \<Longrightarrow> \<not> (ws st \<and> wsOpen c) \<Longrightarrow>
   sendUploadChunk payload c st =
     (if uploadInterval u \<noteq> 0
      then (st\<lparr>c_status := UploadingState (u\<lparr>uploadInterval := 0\<rparr>)\<rparr>,
            [ClearTimeoutUpload (uploadInterval u)])
      else (st, []))"
  by (auto simp: sendUploadChunk_def stopUploadTest_def)

lemma sendUploadChunk_send_error:
  "c_status st = UploadingState u \<Longrightarrow> ws st \<Longrightarrow> wsOpen c \<Longrightarrow>
   c_bufferedAmount c < BACKPRESSURE_THRESHOLD_BYTES \<Longrightarrow> sendThrows c \<Longrightarrow>
   sendUploadChunk payload c st =
     (\<lparr>c_status = ReadyState, ws = True\<rparr>,
      [UpdateSpeedDisplay (Fin 0) ''Ready'' NoText (Fin 0), ButtonText ''Start Test''])"
  by (simp add: sendUploadChunk_def resetToIdle_def stopUploadTest_def Let_def)

lemma uploadResult_ends_upload:
  "c_status st = UploadingState u \<Longrightarrow> uploadInterval u \<noteq> 0 \<Longrightarrow>
   c_status (fst (handleServerMessage c st (UploadResult elapsedMs receivedBytes))) = ReadyState \<and>
   ClearTimeoutUpload (uploadInterval u)
     \<in> set (snd (handleServerMessage c st (UploadResult elapsedMs receivedBytes)))"
  by (simp add: handleServerMessage_def stopUploadTest_def Let_def)

lemma stopRealTest_ends_upload:
  "c_status st = UploadingState u \<Longrightarrow> uploadInterval u \<noteq> 0 \<Longrightarrow>
   c_status (fst (stopRealTest c st)) = ReadyState \<and>
   ClearTimeoutUpload (uploadInterval u) \<in> set (snd (stopRealTest c st))"
  by (simp add: stopRealTest_def stopUploadTest_def Let_def)

text \<open>
  Claim C4, as it is written, fails for the client's upload flood. An upload of \<open>3000\<close> ms
  is started at time \<open>0\<close>; a tick of \<^verbatim>\<open>sendUploadChunk\<close> at time \<open>10000\<close>, long after
  \<open>3000 + 500\<close>, still sends a chunk and sets the timer for the next tick.
\<close>

theorem upload_flood_sends_past_duration_counterexample:
  "sendUploadChunk 4194304
     \<lparr>c_now = 10000, c_now2 = 10000, wsOpen = True, c_bufferedAmount = 0, c_timerId = 8, sendThrows = False\<rparr>
     (fst (startRealTest \<lparr>direction = ''upload'', durationMs = 3000, payloadSizeBytes = 4194304\<rparr>
            \<lparr>c_now = 0, c_now2 = 0, wsOpen = True, c_bufferedAmount = 0, c_timerId = 7, sendThrows = False\<rparr>
            \<lparr>c_status = ReadyState, ws = True\<rparr>))
   = (\<lparr>c_status = UploadingState \<lparr>uploadInterval = 8, uploadPayload = 4194304\<rparr>, ws = True\<rparr>,
      [SendPayload 4194304, SetTimeoutUpload 0])
   \<and> (3000::real) + 500 < 10000 - 0"
  by (simp add: startRealTest_def startUploadTest_def sendUploadChunk_def sendControlMessage_def
        BACKPRESSURE_THRESHOLD_BYTES_def MiB_def Let_def)

text \<open>
  Claim C4, amended. Server, download flood started for a duration \<open>D\<close> and a chunk size
  \<open>p\<close>: a tick that is not cancelled and finds the outbound buffer below the threshold
  sends one chunk and then reads the clock; when \<open>D + 500\<close> ms or more have passed since
  the flood started it sets no timer and marks the flood \<open>FLOOD_CANCELLED\<close>, so that any
  later tick does nothing; otherwise it sets the timer for the next tick. No stop
  message is involved. Client, upload flood: \<^verbatim>\<open>sendUploadChunk\<close> does not read the clock;
  as long as the client is in the upload state with the socket open, the buffer below
  its threshold and the send not failing, every tick sends a chunk and sets the timer
  for the next one. The flood ends when the client leaves the upload state or the socket
  is not open: a tick of a client that is not in the upload state sends nothing and sets
  no timer; a tick in the upload state with no socket or a socket that is not open sends
  nothing, sets no timer and clears the pending one; a failing send puts the client in
  the ready state with nothing sent and no timer set; an \<^verbatim>\<open>uploadResult\<close> and a user's
  stop each put an uploading client in the ready state and clear the pending timer.
\<close>

theorem download_flood_ends_after_duration_plus_buffer:
  assumes "initiateDownloadFlooding e0 d0 (Fin D) (Fin p) = Inr (fl, d1, effs0)"
      and "downloadFloodTimer d \<noteq> FLOOD_CANCELLED"
      and "real (bufferedAmount e) < 2 * p"
  shows "(D + 500 \<le> tickNow e - floodNow e0 \<longrightarrow>
            sendDownloadChunk fl e d =
              (d\<lparr>downloadFloodTimer := FLOOD_CANCELLED\<rparr>, [SendBinary (fl_payload fl)]) \<and>
            sendDownloadChunk fl e' (d\<lparr>downloadFloodTimer := FLOOD_CANCELLED\<rparr>) =
              (d\<lparr>downloadFloodTimer := FLOOD_CANCELLED\<rparr>, []))
       \<and> (tickNow e - floodNow e0 < D + 500 \<longrightarrow>
            sendDownloadChunk fl e d =
              (d\<lparr>downloadFloodTimer := timerId e\<rparr>, [SendBinary (fl_payload fl), SetTimeout 0]))
       \<and> sendUploadChunk payload (c\<lparr>c_now := t, c_now2 := t'\<rparr>) st = sendUploadChunk payload c st
       \<and> (c_status st = UploadingState u \<and> ws st \<and> wsOpen c \<and>
            c_bufferedAmount c < BACKPRESSURE_THRESHOLD_BYTES \<and> \<not> sendThrows c \<longrightarrow>
            sendUploadChunk payload c st =
              (st\<lparr>c_status := UploadingState (u\<lparr>uploadInterval := c_timerId c\<rparr>)\<rparr>,
               [SendPayload payload, SetTimeoutUpload 0]))
       \<and> (\<not> is_upload (c_status stA) \<longrightarrow> sendUploadChunk payload cA stA = (stA, []))
       \<and> (c_status stB = UploadingState uB \<and> \<not> (ws stB \<and> wsOpen cB) \<longrightarrow>
            sendUploadChunk payload cB stB =
              (if uploadInterval uB \<noteq> 0
               then (stB\<lparr>c_status := UploadingState (uB\<lparr>uploadInterval := 0\<rparr>)\<rparr>,
                     [ClearTimeoutUpload (uploadInterval uB)])
               else (stB, [])))
       \<and> (c_status stC = UploadingState uC \<and> ws stC \<and> wsOpen cC \<and>
            c_bufferedAmount cC < BACKPRESSURE_THRESHOLD_BYTES \<and> sendThrows cC \<longrightarrow>
            sendUploadChunk payload cC stC =
              (\<lparr>c_status = ReadyState, ws = True\<rparr>,
               [UpdateSpeedDisplay (Fin 0) ''Ready'' NoText (Fin 0), ButtonText ''Start Test'']))
       \<and> (c_status stD = UploadingState uD \<and> uploadInterval uD \<noteq> 0 \<longrightarrow>
            c_status (fst (handleServerMessage cD stD (UploadResult elapsedMs receivedBytes)))
              = ReadyState \<and>
            ClearTimeoutUpload (uploadInterval uD)
              \<in> set (snd (handleServerMessage cD stD (UploadResult elapsedMs receivedBytes))) \<and>
            c_status (fst (stopRealTest cD stD)) = ReadyState \<and>
            ClearTimeoutUpload (uploadInterval uD) \<in> set (snd (stopRealTest cD stD)))"
proof -
  have thr: "backpressureThresholdBytes fl = Fin (2 * p)"
    using initiateDownloadFlooding_fields(3) [OF assms(1)] by simp
  have dur: "fl_requestedDurationMs fl = Fin D"
    using initiateDownloadFlooding_fields(2) [OF assms(1)] .
  have start: "floodStartTimeMs fl = floodNow e0"
    using initiateDownloadFlooding_fields(1) [OF assms(1)] .
  have tick: "sendDownloadChunk fl e d =
     (if D + 500 \<le> tickNow e - floodNow e0
      then (d\<lparr>downloadFloodTimer := FLOOD_CANCELLED\<rparr>, [SendBinary (fl_payload fl)])
      else (d\<lparr>downloadFloodTimer := timerId e\<rparr>, [SendBinary (fl_payload fl), SetTimeout 0]))"
    using sendDownloadChunk_sends [OF assms(2) thr assms(3) dur] start by simp
  have after: "sendDownloadChunk fl e' (d\<lparr>downloadFloodTimer := FLOOD_CANCELLED\<rparr>) =
                 (d\<lparr>downloadFloodTimer := FLOOD_CANCELLED\<rparr>, [])"
    by (simp add: sendDownloadChunk_def)
  have server: "(D + 500 \<le> tickNow e - floodNow e0 \<longrightarrow>
            sendDownloadChunk fl e d =
              (d\<lparr>downloadFloodTimer := FLOOD_CANCELLED\<rparr>, [SendBinary (fl_payload fl)]) \<and>
            sendDownloadChunk fl e' (d\<lparr>downloadFloodTimer := FLOOD_CANCELLED\<rparr>) =
              (d\<lparr>downloadFloodTimer := FLOOD_CANCELLED\<rparr>, []))
       \<and> (tickNow e - floodNow e0 < D + 500 \<longrightarrow>
            sendDownloadChunk fl e d =
              (d\<lparr>downloadFloodTimer := timerId e\<rparr>, [SendBinary (fl_payload fl), SetTimeout 0]))"
    using tick after by simp
  show ?thesis
    using server sendUploadChunk_sends [of st u c payload]
      sendUploadChunk_reads_no_clock [where payload = payload and e = c and t = t and t' = t' and st = st]
      sendUploadChunk_outside_upload [of stA payload cA]
      sendUploadChunk_socket_not_open [of stB uB cB payload]
      sendUploadChunk_send_error [of stC uC cC payload]
      uploadResult_ends_upload [of stD uD cD elapsedMs receivedBytes]
      stopRealTest_ends_upload [of stD uD cD]
    by blast
qed

theorem download_flood_ends_after_duration_plus_buffer_witness:
  "initiateDownloadFlooding
      \<lparr>now = 10, floodNow = 11, tickNow = 12, bufferedAmount = 0, timerId = 5,
             allocatable = 4294967296\<rparr>
      \<lparr>dl_startTimeOnServerMs = 10, dl_requestedDurationMs = Fin 3000, downloadFloodTimer = - 1\<rparr>
      (Fin 3000) (Fin 4194304)
    = Inr (\<lparr>floodStartTimeMs = 11, fl_requestedDurationMs = Fin 3000,
            backpressureThresholdBytes = Fin 8388608, fl_payload = 4194304\<rparr>,
           \<lparr>dl_startTimeOnServerMs = 10, dl_requestedDurationMs = Fin 3000, downloadFloodTimer = 5\<rparr>,
           [SendBinary 4194304, SetTimeout 0])
   \<and> sendDownloadChunk
        \<lparr>floodStartTimeMs = 11, fl_requestedDurationMs = Fin 3000,
         backpressureThresholdBytes = Fin 8388608, fl_payload = 4194304\<rparr>
        \<lparr>now = 0, floodNow = 0, tickNow = 3511, bufferedAmount = 4194304, timerId = 6,
             allocatable = 4294967296\<rparr>
        \<lparr>dl_startTimeOnServerMs = 10, dl_requestedDurationMs = Fin 3000, downloadFloodTimer = 5\<rparr>
      = (\<lparr>dl_startTimeOnServerMs = 10, dl_requestedDurationMs = Fin 3000, downloadFloodTimer = - 2\<rparr>,
         [SendBinary 4194304])
   \<and> sendDownloadChunk
        \<lparr>floodStartTimeMs = 11, fl_requestedDurationMs = Fin 3000,
         backpressureThresholdBytes = Fin 8388608, fl_payload = 4194304\<rparr>
        \<lparr>now = 0, floodNow = 0, tickNow = 3512, bufferedAmount = 0, timerId = 7,
             allocatable = 4294967296\<rparr>
        \<lparr>dl_startTimeOnServerMs = 10, dl_requestedDurationMs = Fin 3000, downloadFloodTimer = - 2\<rparr>
      = (\<lparr>dl_startTimeOnServerMs = 10, dl_requestedDurationMs = Fin 3000, downloadFloodTimer = - 2\<rparr>, [])
   \<and> sendUploadChunk 4194304
        \<lparr>c_now = 10000, c_now2 = 10000, wsOpen = True, c_bufferedAmount = 0, c_timerId = 8,
         sendThrows = False\<rparr>
        \<lparr>c_status = UploadingState \<lparr>uploadInterval = 7, uploadPayload = 4194304\<rparr>, ws = True\<rparr>
      = (\<lparr>c_status = UploadingState \<lparr>uploadInterval = 8, uploadPayload = 4194304\<rparr>, ws = True\<rparr>,
         [SendPayload 4194304, SetTimeoutUpload 0])
   \<and> sendUploadChunk 4194304
        \<lparr>c_now = 10000, c_now2 = 10000, wsOpen = True, c_bufferedAmount = 0, c_timerId = 8,
         sendThrows = False\<rparr>
        \<lparr>c_status = ReadyState, ws = True\<rparr>
      = (\<lparr>c_status = ReadyState, ws = True\<rparr>, [])
   \<and> sendUploadChunk 4194304
        \<lparr>c_now = 10000, c_now2 = 10000, wsOpen = False, c_bufferedAmount = 0, c_timerId = 8,
         sendThrows = False\<rparr>
        \<lparr>c_status = UploadingState \<lparr>uploadInterval = 7, uploadPayload = 4194304\<rparr>, ws = True\<rparr>
      = (\<lparr>c_status = UploadingState \<lparr>uploadInterval = 0, uploadPayload = 4194304\<rparr>, ws = True\<rparr>,
         [ClearTimeoutUpload 7])
   \<and> sendUploadChunk 4194304
        \<lparr>c_now = 10000, c_now2 = 10000, wsOpen = True, c_bufferedAmount = 0, c_timerId = 8,
         sendThrows = True\<rparr>
        \<lparr>c_status = UploadingState \<lparr>uploadInterval = 7, uploadPayload = 4194304\<rparr>, ws = True\<rparr>
      = (\<lparr>c_status = ReadyState, ws = True\<rparr>,
         [UpdateSpeedDisplay (Fin 0) ''Ready'' NoText (Fin 0), ButtonText ''Start Test''])
   \<and> c_status (fst (handleServerMessage
        \<lparr>c_now = 10000, c_now2 = 10000, wsOpen = True, c_bufferedAmount = 0, c_timerId = 8,
         sendThrows = False\<rparr>
        \<lparr>c_status = UploadingState \<lparr>uploadInterval = 7, uploadPayload = 4194304\<rparr>, ws = True\<rparr>
        (UploadResult 3000 12582912))) = ReadyState
   \<and> ClearTimeoutUpload 7 \<in> set (snd (handleServerMessage
        \<lparr>c_now = 10000, c_now2 = 10000, wsOpen = True, c_bufferedAmount = 0, c_timerId = 8,
         sendThrows = False\<rparr>
        \<lparr>c_status = UploadingState \<lparr>uploadInterval = 7, uploadPayload = 4194304\<rparr>, ws = True\<rparr>
        (UploadResult 3000 12582912)))
   \<and> c_status (fst (stopRealTest
        \<lparr>c_now = 10000, c_now2 = 10000, wsOpen = True, c_bufferedAmount = 0, c_timerId = 8,
         sendThrows = False\<rparr>
        \<lparr>c_status = UploadingState \<lparr>uploadInterval = 7, uploadPayload = 4194304\<rparr>, ws = True\<rparr>)) = ReadyState
   \<and> ClearTimeoutUpload 7 \<in> set (snd (stopRealTest
        \<lparr>c_now = 10000, c_now2 = 10000, wsOpen = True, c_bufferedAmount = 0, c_timerId = 8,
         sendThrows = False\<rparr>
        \<lparr>c_status = UploadingState \<lparr>uploadInterval = 7, uploadPayload = 4194304\<rparr>, ws = True\<rparr>))"
proof -
  have init: "initiateDownloadFlooding
      \<lparr>now = 10, floodNow = 11, tickNow = 12, bufferedAmount = 0, timerId = 5,
             allocatable = 4294967296\<rparr>
      \<lparr>dl_startTimeOnServerMs = 10, dl_requestedDurationMs = Fin 3000, downloadFloodTimer = - 1\<rparr>
      (Fin 3000) (Fin 4194304)
    = Inr (\<lparr>floodStartTimeMs = 11, fl_requestedDurationMs = Fin 3000,
            backpressureThresholdBytes = Fin 8388608, fl_payload = 4194304\<rparr>,
           \<lparr>dl_startTimeOnServerMs = 10, dl_requestedDurationMs = Fin 3000, downloadFloodTimer = 5\<rparr>,
           [SendBinary 4194304, SetTimeout 0])"
    by (simp add: initiateDownloadFlooding_def sendDownloadChunk_def FLOOD_CANCELLED_def
          DOWNLOAD_DURATION_BUFFER_MS_def Let_def)
  have live: "downloadFloodTimer
      \<lparr>dl_startTimeOnServerMs = 10, dl_requestedDurationMs = Fin 3000, downloadFloodTimer = 5\<rparr>
      \<noteq> FLOOD_CANCELLED"
    by (simp add: FLOOD_CANCELLED_def)
  have room: "real (bufferedAmount
      \<lparr>now = 0, floodNow = 0, tickNow = 3511, bufferedAmount = 4194304, timerId = 6,
             allocatable = 4294967296\<rparr>) < 2 * 4194304"
    by simp
  show ?thesis
    using init
      download_flood_ends_after_duration_plus_buffer [OF init live room,
        where e' = "\<lparr>now = 0, floodNow = 0, tickNow = 3512, bufferedAmount = 0, timerId = 7,
             allocatable = 4294967296\<rparr>"
          and payload = 4194304
          and c = "\<lparr>c_now = 0, c_now2 = 0, wsOpen = True, c_bufferedAmount = 0, c_timerId = 8,
                     sendThrows = False\<rparr>"
          and t = 10000 and t' = 10000
          and st = "\<lparr>c_status = UploadingState \<lparr>uploadInterval = 7, uploadPayload = 4194304\<rparr>,
                     ws = True\<rparr>"
          and u = "\<lparr>uploadInterval = 7, uploadPayload = 4194304\<rparr>"
          and stA = "\<lparr>c_status = ReadyState, ws = True\<rparr>"
          and cA = "\<lparr>c_now = 10000, c_now2 = 10000, wsOpen = True, c_bufferedAmount = 0, c_timerId = 8,
         sendThrows = False\<rparr>"
          and stB = "\<lparr>c_status = UploadingState \<lparr>uploadInterval = 7, uploadPayload = 4194304\<rparr>, ws = True\<rparr>"
          and uB = "\<lparr>uploadInterval = 7, uploadPayload = 4194304\<rparr>"
          and cB = "\<lparr>c_now = 10000, c_now2 = 10000, wsOpen = False, c_bufferedAmount = 0, c_timerId = 8,
         sendThrows = False\<rparr>"
          and stC = "\<lparr>c_status = UploadingState \<lparr>uploadInterval = 7, uploadPayload = 4194304\<rparr>, ws = True\<rparr>"
          and uC = "\<lparr>uploadInterval = 7, uploadPayload = 4194304\<rparr>"
          and cC = "\<lparr>c_now = 10000, c_now2 = 10000, wsOpen = True, c_bufferedAmount = 0, c_timerId = 8,
         sendThrows = True\<rparr>"
          and stD = "\<lparr>c_status = UploadingState \<lparr>uploadInterval = 7, uploadPayload = 4194304\<rparr>, ws = True\<rparr>"
          and uD = "\<lparr>uploadInterval = 7, uploadPayload = 4194304\<rparr>"
          and cD = "\<lparr>c_now = 10000, c_now2 = 10000, wsOpen = True, c_bufferedAmount = 0, c_timerId = 8,
         sendThrows = False\<rparr>"
          and elapsedMs = 3000 and receivedBytes = 12582912]
    by (simp add: FLOOD_CANCELLED_def BACKPRESSURE_THRESHOLD_BYTES_def MiB_def)
qed

text \<open>
  The server's flood takes twice the requested chunk size as its threshold: a tick that is
  not cancelled and finds \<open>2 * p\<close> bytes or more in the outbound buffer sends nothing and
  sets a timer of 1 ms, and a tick that sends a chunk (the first tick included) found
  less than \<open>2 * p\<close> bytes there.
\<close>

lemma download_flood_threshold_is_twice_chunk:
  assumes "initiateDownloadFlooding e0 d0 D (Fin p) = Inr (fl, d1, effs0)"
  shows "(downloadFloodTimer d \<noteq> FLOOD_CANCELLED \<and> 2 * p \<le> real (bufferedAmount e) \<longrightarrow>
            sendDownloadChunk fl e d = (d\<lparr>downloadFloodTimer := timerId e\<rparr>, [SetTimeout 1]))
       \<and> (SendBinary n \<in> set (snd (sendDownloadChunk fl e d)) \<longrightarrow>
            real (bufferedAmount e) < 2 * p)
       \<and> (SendBinary n \<in> set effs0 \<longrightarrow> real (bufferedAmount e0) < 2 * p)"
proof -
  have thr: "backpressureThresholdBytes fl = Fin (2 * p)"
    using initiateDownloadFlooding_fields(3) [OF assms] by simp
  have first: "effs0 = snd (sendDownloadChunk fl e0 d0)"
    using initiateDownloadFlooding_fields(5) [OF assms] by (metis snd_conv)
  show ?thesis
    using sendDownloadChunk_backpressure [OF _ thr, of d e]
      sendDownloadChunk_send_below_threshold [OF thr, of n e d]
      sendDownloadChunk_send_below_threshold [OF thr, of n e0 d0] first
    by blast
qed

text \<open>
  Claim C5 (a defect of the code). The client's flood compares the outbound buffer with
  the constant \<open>BACKPRESSURE_THRESHOLD_BYTES\<close> of 16 MiB, which the source itself notes
  should be relative to the payload size, and not with twice the chunk size. With chunks
  of 4 MiB and 8 MiB in the outbound buffer, which is twice the chunk size, a tick of
  \<^verbatim>\<open>sendUploadChunk\<close> sends a chunk and sets the timer for the next tick, where the
  claim has no send and a retry.
\<close>

theorem upload_flood_sends_at_twice_chunk_size:
  "sendUploadChunk 4194304
     \<lparr>c_now = 500, c_now2 = 500, wsOpen = True, c_bufferedAmount = 8388608, c_timerId = 8,
      sendThrows = False\<rparr>
     \<lparr>c_status = UploadingState \<lparr>uploadInterval = 7, uploadPayload = 4194304\<rparr>, ws = True\<rparr>
   = (\<lparr>c_status = UploadingState \<lparr>uploadInterval = 8, uploadPayload = 4194304\<rparr>, ws = True\<rparr>,
      [SendPayload 4194304, SetTimeoutUpload 0])
   \<and> (2::nat) * 4194304 \<le> 8388608"
  by (simp add: sendUploadChunk_def BACKPRESSURE_THRESHOLD_BYTES_def MiB_def)

subsection \<open>Control messages that are not valid\<close>

lemma processMessage_malformed: "processMessage e s (StringData None) = Inr (s, [])"
  by (simp add: processMessage_def parseEventToAction_def)

lemma not_positive_number_iff:
  "not_positive_number v \<longleftrightarrow> (\<forall>x. v = Some (JNumber x) \<longrightarrow> num_le x (Fin 0))"
  by (cases v rule: not_positive_number.cases) simp_all

lemma processMessage_unknown_type:
  "get_prop v ''type'' \<notin> {Some (JString ''startUpload''), Some (JString ''startDownload''),
                                 Some (JString ''stopUpload''), Some (JString ''stopDownload'')} \<Longrightarrow>
   processMessage e s (StringData (Some v)) = Inr (s, [])"
  by (cases v) (simp_all add: processMessage_def parseEventToAction_def Let_def)

lemma processMessage_bad_duration:
  "get_prop v ''type'' \<in> {Some (JString ''startUpload''), Some (JString ''startDownload'')} \<Longrightarrow>
   \<forall>x. get_prop v ''durationMs'' = Some (JNumber x) \<longrightarrow> num_le x (Fin 0) \<Longrightarrow>
   processMessage e s (StringData (Some v)) = Inr (s, [])"
  by (cases v) (auto simp add: processMessage_def parseEventToAction_def Let_def not_positive_number_iff)

lemma processMessage_bad_payload_size:
  "get_prop v ''type'' = Some (JString ''startDownload'') \<Longrightarrow>
   \<forall>x. get_prop v ''payloadSizeBytes'' = Some (JNumber x) \<longrightarrow> num_le x (Fin 0) \<Longrightarrow>
   processMessage e s (StringData (Some v)) = Inr (s, [])"
  by (cases v) (auto simp add: processMessage_def parseEventToAction_def Let_def not_positive_number_iff)

lemma ws_onmessage_unknown_type:
  "ws_onmessage cfg e st (C_StringData (Some UnknownMessage)) = (st, [])"
  by (simp add: ws_onmessage_def handleServerMessage_def)

lemma ws_onmessage_malformed:
  "c_status (fst (ws_onmessage cfg e st (C_StringData None))) =
    (if ws st \<and> wsOpen e then ReadyState else DisconnectedState)"
  by (simp add: ws_onmessage_def resetToIdle_def stopUploadTest_def Let_def)

text \<open>
  The parser asks for a number that is not \<open>\<le> 0\<close>, not for a finite one: a JSON number
  beyond the range of a double, such as \<^verbatim>\<open>1e999\<close>, parses to Infinity and is accepted.
\<close>

lemma parseEventToAction_accepts_Infinity:
  "parseEventToAction (StringData (Some (JObject
       [(''type'', JString ''startUpload''), (''durationMs'', JNumber PosInf)])))
     = Some (StartUpload PosInf)"
  by (simp add: parseEventToAction_def num_le_def)

text \<open>
  Claim C7, as it is written, fails on the client. A client in the middle of a download
  receives a text frame that is not JSON: it leaves the download state for the ready
  state and resets the display.
\<close>

theorem client_malformed_text_resets_counterexample:
  "ws_onmessage \<lparr>direction = ''download'', durationMs = 3000, payloadSizeBytes = 4194304\<rparr>
     \<lparr>c_now = 500, c_now2 = 500, wsOpen = True, c_bufferedAmount = 0, c_timerId = 8, sendThrows = False\<rparr>
     \<lparr>c_status = DownloadingState
        \<lparr>downloadBytesReceived = 4194304, downloadStartTimeClient = 100,
         downloadLastReceivedTimeClient = 400, downloadCompleted = False\<rparr>, ws = True\<rparr>
     (C_StringData None)
   = (\<lparr>c_status = ReadyState, ws = True\<rparr>,
      [UpdateSpeedDisplay (Fin 0) ''Ready'' NoText (Fin 0), ButtonText ''Start Test''])"
  by (simp add: ws_onmessage_def resetToIdle_def stopUploadTest_def Let_def)

text \<open>
  Claim C7, amended. Server: a text frame that is not JSON, or whose \<^verbatim>\<open>type\<close> is none of
  the four control types, or that is a start message whose \<^verbatim>\<open>durationMs\<close> is not a
  number or is a number \<open>\<le> 0\<close>, or a \<^verbatim>\<open>startDownload\<close> whose \<^verbatim>\<open>payloadSizeBytes\<close> is
  not a number or is a number \<open>\<le> 0\<close>, is dropped: the state of the connection is
  unchanged, nothing is sent and no exception is raised. Client: a message of an unknown
  type is dropped with the state unchanged; a text frame that is not JSON puts the
  client in the error state and resets it, to ready when the socket is open and to
  disconnected otherwise.
\<close>

theorem invalid_control_message_dropped:
  "processMessage e s (StringData None) = Inr (s, [])
   \<and> (get_prop v1 ''type'' \<notin> {Some (JString ''startUpload''), Some (JString ''startDownload''),
                               Some (JString ''stopUpload''), Some (JString ''stopDownload'')}
        \<longrightarrow> processMessage e s (StringData (Some v1)) = Inr (s, []))
   \<and> (get_prop v2 ''type'' \<in> {Some (JString ''startUpload''), Some (JString ''startDownload'')} \<and>
       (\<forall>x. get_prop v2 ''durationMs'' = Some (JNumber x) \<longrightarrow> num_le x (Fin 0))
        \<longrightarrow> processMessage e s (StringData (Some v2)) = Inr (s, []))
   \<and> (get_prop v3 ''type'' = Some (JString ''startDownload'') \<and>
       (\<forall>x. get_prop v3 ''payloadSizeBytes'' = Some (JNumber x) \<longrightarrow> num_le x (Fin 0))
        \<longrightarrow> processMessage e s (StringData (Some v3)) = Inr (s, []))
   \<and> ws_onmessage cfg c st (C_StringData (Some UnknownMessage)) = (st, [])
   \<and> c_status (fst (ws_onmessage cfg c st (C_StringData None))) =
       (if ws st \<and> wsOpen c then ReadyState else DisconnectedState)"
  using processMessage_malformed [of e s] processMessage_unknown_type [of v1 e s] processMessage_bad_duration [of v2 e s] processMessage_bad_payload_size [of v3 e s] ws_onmessage_unknown_type [of cfg c st]
    ws_onmessage_malformed [of cfg c st]
  by blast

theorem invalid_control_message_dropped_witness:
  "processMessage \<lparr>now = 10, floodNow = 10, tickNow = 10, bufferedAmount = 0, timerId = 1,
             allocatable = 4294967296\<rparr>
      (Upload \<lparr>startTimeOnServerMs = 0, requestedDurationMs = Fin 3000, bytesReceived = 42\<rparr>)
      (StringData None)
     = Inr (Upload \<lparr>startTimeOnServerMs = 0, requestedDurationMs = Fin 3000, bytesReceived = 42\<rparr>, [])
   \<and> processMessage \<lparr>now = 10, floodNow = 10, tickNow = 10, bufferedAmount = 0, timerId = 1,
             allocatable = 4294967296\<rparr>
      (Upload \<lparr>startTimeOnServerMs = 0, requestedDurationMs = Fin 3000, bytesReceived = 42\<rparr>)
      (StringData (Some (JObject [(''type'', JString ''ping'')])))
     = Inr (Upload \<lparr>startTimeOnServerMs = 0, requestedDurationMs = Fin 3000, bytesReceived = 42\<rparr>, [])
   \<and> processMessage \<lparr>now = 10, floodNow = 10, tickNow = 10, bufferedAmount = 0, timerId = 1,
             allocatable = 4294967296\<rparr>
      Idle
      (StringData (Some (JObject
         [(''type'', JString ''startUpload''), (''durationMs'', JNumber (Fin (- 5)))])))
     = Inr (Idle, [])
   \<and> processMessage \<lparr>now = 10, floodNow = 10, tickNow = 10, bufferedAmount = 0, timerId = 1,
             allocatable = 4294967296\<rparr>
      Idle
      (StringData (Some (JObject
         [(''type'', JString ''startDownload''), (''durationMs'', JNumber (Fin 3000)),
          (''payloadSizeBytes'', JString ''4194304'')])))
     = Inr (Idle, [])
   \<and> ws_onmessage \<lparr>direction = ''download'', durationMs = 3000, payloadSizeBytes = 4194304\<rparr>
        \<lparr>c_now = 500, c_now2 = 500, wsOpen = True, c_bufferedAmount = 0, c_timerId = 8,
         sendThrows = False\<rparr>
        \<lparr>c_status = DownloadingState
           \<lparr>downloadBytesReceived = 4194304, downloadStartTimeClient = 100,
            downloadLastReceivedTimeClient = 400, downloadCompleted = False\<rparr>, ws = True\<rparr>
        (C_StringData (Some UnknownMessage))
     = (\<lparr>c_status = DownloadingState
           \<lparr>downloadBytesReceived = 4194304, downloadStartTimeClient = 100,
            downloadLastReceivedTimeClient = 400, downloadCompleted = False\<rparr>, ws = True\<rparr>, [])
   \<and> c_status (fst (ws_onmessage
        \<lparr>direction = ''download'', durationMs = 3000, payloadSizeBytes = 4194304\<rparr>
        \<lparr>c_now = 500, c_now2 = 500, wsOpen = True, c_bufferedAmount = 0, c_timerId = 8,
         sendThrows = False\<rparr>
        \<lparr>c_status = DownloadingState
           \<lparr>downloadBytesReceived = 4194304, downloadStartTimeClient = 100,
            downloadLastReceivedTimeClient = 400, downloadCompleted = False\<rparr>, ws = True\<rparr>
        (C_StringData None))) = ReadyState"
  using invalid_control_message_dropped
    [where e = "\<lparr>now = 10, floodNow = 10, tickNow = 10, bufferedAmount = 0, timerId = 1,
             allocatable = 4294967296\<rparr>"
       and s = "Upload \<lparr>startTimeOnServerMs = 0, requestedDurationMs = Fin 3000, bytesReceived = 42\<rparr>"
       and ?v1.0 = "JObject [(''type'', JString ''ping'')]"
       and cfg = "\<lparr>direction = ''download'', durationMs = 3000, payloadSizeBytes = 4194304\<rparr>"
       and c = "\<lparr>c_now = 500, c_now2 = 500, wsOpen = True, c_bufferedAmount = 0, c_timerId = 8,
                  sendThrows = False\<rparr>"
       and st = "\<lparr>c_status = DownloadingState
           \<lparr>downloadBytesReceived = 4194304, downloadStartTimeClient = 100,
            downloadLastReceivedTimeClient = 400, downloadCompleted = False\<rparr>, ws = True\<rparr>"]
    invalid_control_message_dropped
    [where e = "\<lparr>now = 10, floodNow = 10, tickNow = 10, bufferedAmount = 0, timerId = 1,
             allocatable = 4294967296\<rparr>"
       and s = Idle
       and ?v2.0 = "JObject [(''type'', JString ''startUpload''), (''durationMs'', JNumber (Fin (- 5)))]"
       and ?v3.0 = "JObject [(''type'', JString ''startDownload''), (''durationMs'', JNumber (Fin 3000)),
                             (''payloadSizeBytes'', JString ''4194304'')]"]
  by (simp add: num_le_def)

subsection \<open>Stopping a download\<close>

text \<open>
  When the client itself finds the duration over, it marks the test completed, sends
  \<^verbatim>\<open>stopDownload\<close> and stays in the download state, waiting for \<^verbatim>\<open>downloadComplete\<close>.
\<close>

lemma download_completion_waits_for_ack:
  assumes "c_status st = DownloadingState d" and "\<not> downloadCompleted d"
      and "downloadBytesReceived d \<noteq> - 1"
      and "durationMs cfg \<le> c_now2 e - downloadStartTimeClient d"
      and "ws st" and "wsOpen e"
  shows "\<exists>shown. handlePayloadMessage cfg e st n =
           (st\<lparr>c_status := DownloadingState
                 (d\<lparr>downloadBytesReceived := downloadBytesReceived d + int n,
                    downloadLastReceivedTimeClient := c_now e,
                    downloadCompleted := True\<rparr>)\<rparr>,
            [shown, Send StopDownload])"
  using assms by (simp add: handlePayloadMessage_def sendControlMessage_def Let_def)

lemma stopRealTest_download:
  "is_download (c_status st) \<Longrightarrow>
     stopRealTest e st =
       (\<lparr>c_status = ReadyState, ws = ws st\<rparr>,
        sendControlMessage e st StopDownload @ [ButtonText ''Start Test''])"
  by (cases "c_status st") (simp_all add: stopRealTest_def stopUploadTest_def Let_def)

text \<open>
  The acknowledgment of such a stop then reaches a client that is ready, not downloading;
  the \<^verbatim>\<open>downloadComplete\<close> branch reads the download fields all the same and displays
  NaN.
\<close>

lemma downloadComplete_when_ready:
  "handleServerMessage e \<lparr>c_status = ReadyState, ws = w\<rparr> DownloadComplete =
     (\<lparr>c_status = ReadyState, ws = w\<rparr>,
      [UpdateSpeedDisplay NaN ''Complete'' (KiB_total NaN) (Fin 100),
       ButtonText ''Start Test'', SetTimeoutDisplayReset])"
  by (simp add: handleServerMessage_def download_display_def)

text \<open>
  Claim C2 (a defect of the code). The user stops a running download: \<^verbatim>\<open>stopRealTest\<close>
  sends \<^verbatim>\<open>stopDownload\<close> and in the same step puts the client in the ready state, before
  any \<^verbatim>\<open>downloadComplete\<close> has been received.
\<close>

theorem user_stop_download_ready_before_ack:
  "stopRealTest
     \<lparr>c_now = 500, c_now2 = 500, wsOpen = True, c_bufferedAmount = 0, c_timerId = 8, sendThrows = False\<rparr>
     \<lparr>c_status = DownloadingState
        \<lparr>downloadBytesReceived = 4194304, downloadStartTimeClient = 100,
         downloadLastReceivedTimeClient = 400, downloadCompleted = False\<rparr>, ws = True\<rparr>
   = (\<lparr>c_status = ReadyState, ws = True\<rparr>, [Send StopDownload, ButtonText ''Start Test''])"
  by (simp add: stopRealTest_def stopUploadTest_def sendControlMessage_def Let_def)

end
